theory Spec2Isabelle
  imports Complex_Main "HOL-Library.Multiset"
begin

section \<open>Time\<close>

text \<open>
  A Go \<open>time.Time\<close> is modelled as the number of nanoseconds since the Unix epoch
  (UTC), a \<open>time.Duration\<close> as a number of nanoseconds.  Every call of
  \<open>time.Now()\<close> in the source becomes a parameter \<open>now\<close> of the function that
  makes the call.  A Go \<open>float64\<close> is modelled as an exact rational: rounding of
  floating-point arithmetic is not part of the model.  A nil pointer is \<open>None\<close>.
\<close>

type_synonym time = int
type_synonym duration = int

definition Second :: duration where
  "Second = 1000000000"

definition Minute :: duration where
  "Minute = 60 * Second"

definition Hour :: duration where
  "Hour = 60 * Minute"

definition minDuration :: duration where
  "minDuration = - (2 ^ 63)"

definition maxDuration :: duration where
  "maxDuration = 2 ^ 63 - 1"

text \<open>\<open>t.Sub(u)\<close>: the duration \<open>t - u\<close>, saturated to the range of an int64.\<close>

definition Time_Sub :: "time \<Rightarrow> time \<Rightarrow> duration" where
  "Time_Sub t u =
     (let d = t - u
      in if d < minDuration then minDuration
         else if maxDuration < d then maxDuration
         else d)"

text \<open>\<open>d.Seconds()\<close>: the duration as a fractional number of seconds.\<close>

definition Duration_Seconds :: "duration \<Rightarrow> rat" where
  "Duration_Seconds d = of_int d / of_int Second"

text \<open>
  The Go conversion \<open>int(f)\<close> of a float to the 64-bit \<open>int\<close>: the fraction is discarded
  (truncation toward zero).  When the truncated value lies outside the range of an
  \<open>int\<close>, the language leaves the result to the implementation; the model takes the
  result of the conversion on amd64, which is the least \<open>int\<close>.
\<close>

definition minInt :: int where
  "minInt = - (2 ^ 63)"

definition maxInt :: int where
  "maxInt = 2 ^ 63 - 1"

definition go_int :: "rat \<Rightarrow> int" where
  "go_int r =
     (let i = (if r < 0 then \<lceil>r\<rceil> else \<lfloor>r\<rfloor>)
      in if minInt \<le> i \<and> i \<le> maxInt then i else minInt)"

text \<open>\<open>time.Date(2000, 1, 1, 0, 0, 0, 0, time.UTC)\<close>: 946684800 seconds after the epoch.\<close>

definition date_2000_01_01_UTC :: time where
  "date_2000_01_01_UTC = 946684800 * Second"

text \<open>
  The zero value of \<open>time.Time\<close>, which a struct literal leaves in a field that it does
  not name: January 1 of the year 1, 00:00 UTC, 62135596800 seconds before the epoch.
\<close>

definition zero_Time :: time where
  "zero_Time = - 62135596800 * Second"

section \<open>Period windows\<close>

text \<open>
  \<open>calculatePeriodRange\<close> of the badge evaluator (a method of the badge service) and of
  the leaderboard service (a package function).  The switch is kept with its cases in
  the order of the source.
\<close>

definition badges_calculatePeriodRange :: "time \<Rightarrow> string \<Rightarrow> time \<times> time" where
  "badges_calculatePeriodRange now period =
     (let endDate = now;
          startDate =
            (if period = ''day'' then now + (- 24 * Hour)
             else if period = ''week'' then now + (- 7 * 24 * Hour)
             else if period = ''month'' then now + (- 30 * 24 * Hour)
             else if period = ''year'' then now + (- 365 * 24 * Hour)
             else if period = ''all_time'' \<or> period = [] then date_2000_01_01_UTC
             else date_2000_01_01_UTC)
      in (startDate, endDate))"

definition leaderboard_calculatePeriodRange :: "time \<Rightarrow> string \<Rightarrow> time \<times> time" where
  "leaderboard_calculatePeriodRange now period =
     (let endDate = now;
          startDate =
            (if period = ''day'' then now + (- 24 * Hour)
             else if period = ''week'' then now + (- 7 * 24 * Hour)
             else if period = ''month'' then now + (- 30 * 24 * Hour)
             else if period = ''year'' then now + (- 365 * 24 * Hour)
             else if period = ''all_time'' \<or> period = [] then date_2000_01_01_UTC
             else date_2000_01_01_UTC)
      in (startDate, endDate))"

section \<open>Time to first review and time to approval\<close>

text \<open>
  \<open>CalculateTTFR\<close> and \<open>CalculateTimeToApproval\<close> of the metrics calculator.  Both take
  their timestamps by value (the second one through a pointer that is only read) and
  return a pointer to a fresh integer, or nil.
\<close>

definition CalculateTTFR :: "time \<Rightarrow> time option \<Rightarrow> int option" where
  "CalculateTTFR triggeredAt firstReviewAt =
     (case firstReviewAt of
        None \<Rightarrow> None
      | Some fr \<Rightarrow>
          (let duration = Time_Sub fr triggeredAt;
               seconds = go_int (Duration_Seconds duration)
           in Some (if seconds < 0 then 0 else seconds)))"

definition CalculateTimeToApproval :: "time \<Rightarrow> time option \<Rightarrow> int option" where
  "CalculateTimeToApproval triggeredAt approvedAt =
     (case approvedAt of
        None \<Rightarrow> None
      | Some ap \<Rightarrow>
          (let duration = Time_Sub ap triggeredAt;
               seconds = go_int (Duration_Seconds duration)
           in Some (if seconds < 0 then 0 else seconds)))"

section \<open>Out-of-office windows\<close>

text \<open>
  The \<open>OOOStatus\<close> model (the preloaded \<open>User\<close> is left out) and the two places that
  decide whether a window is active: the method \<open>IsActive\<close> of the model, which compares
  with \<open>After\<close> and \<open>Before\<close>, and the repository query \<open>IsUserOOO\<close>, which counts the
  rows with \<open>start_date <= now AND end_date >= now\<close>.  The table \<open>ooo_status\<close> is the
  list of its rows.
\<close>

record OOOStatus =
  ooo_ID :: nat
  ooo_UserID :: nat
  StartDate :: time
  EndDate :: time
  Reason :: string

definition Time_After :: "time \<Rightarrow> time \<Rightarrow> bool" where
  "Time_After t u \<longleftrightarrow> u < t"

definition Time_Before :: "time \<Rightarrow> time \<Rightarrow> bool" where
  "Time_Before t u \<longleftrightarrow> t < u"

definition IsActive :: "time \<Rightarrow> OOOStatus \<Rightarrow> bool" where
  "IsActive now o_status \<longleftrightarrow>
     Time_After now (StartDate o_status) \<and> Time_Before now (EndDate o_status)"

definition IsUserOOO :: "OOOStatus list \<Rightarrow> time \<Rightarrow> nat \<Rightarrow> bool" where
  "IsUserOOO ooo_status now userID =
     (let count = length (filter (\<lambda>r. ooo_UserID r = userID \<and> StartDate r \<le> now \<and> now \<le> EndDate r)
                           ooo_status)
      in 0 < count)"

section \<open>Domain model and store\<close>

text \<open>
  The models of the repository as records.  A field that several Go structs share
  (\<open>ID\<close>, \<open>UserID\<close>, \<open>Team\<close>, ...) carries a prefix here, because a record field is
  a constant of the theory.  Preloaded associations and the columns that only the
  persistence library maintains (\<open>created_at\<close>, \<open>updated_at\<close>) are left out, with one
  exception: the \<open>created_at\<close> of a metrics row is kept, because the upsert of the
  aggregator writes it.  Go's 64-bit \<open>int\<close> is an unbounded integer.  The status
  constants are those of the source.
\<close>

record User =
  u_ID :: nat
  GitLabID :: int
  Username :: string
  Email :: string
  u_Role :: string
  u_Team :: string

record MRReview =
  mr_ID :: nat
  GitLabMRIID :: int
  GitLabProjectID :: int
  mr_Team :: string
  RouletteTriggeredAt :: "time option"
  FirstReviewAt :: "time option"
  mr_ApprovedAt :: "time option"
  MergedAt :: "time option"
  ClosedAt :: "time option"
  Status :: string

record ReviewerAssignment =
  ra_ID :: nat
  MRReviewID :: nat
  ra_UserID :: nat
  ra_Role :: string
  AssignedAt :: time
  FirstCommentAt :: "time option"
  ra_ApprovedAt :: "time option"
  CommentCount :: int
  CommentLength :: int

record ReviewMetrics =
  rm_ID :: nat
  Date :: time
  rm_Team :: string
  rm_UserID :: "nat option"
  ProjectID :: "int option"
  TotalReviews :: int
  CompletedReviews :: int
  AvgTTFR :: "int option"
  AvgTimeToApproval :: "int option"
  AvgCommentCount :: "rat option"
  AvgCommentLength :: "rat option"
  EngagementScore :: "rat option"
  rm_CreatedAt :: time

text \<open>
  The criteria of a badge are stored as raw JSON and unmarshalled at every evaluation.
  The model keeps the outcome of that step: \<open>None\<close> when the JSON does not unmarshal
  into a \<open>BadgeCriteria\<close>, the criteria otherwise.  The field \<open>Value\<close> is an
  \<open>interface{}\<close>: a JSON number arrives as a float, anything else as another type.
\<close>

datatype json_value = JNumber rat | JString string | JBool bool | JNull

record BadgeCriteria =
  Metric :: string
  Operator :: string
  Value :: json_value
  Period :: string

record Badge =
  b_ID :: nat
  Name :: string
  Criteria :: "BadgeCriteria option"

record UserBadge =
  ub_ID :: nat
  ub_UserID :: nat
  BadgeID :: nat
  EarnedAt :: time

definition MRStatusMerged :: string where
  "MRStatusMerged = ''merged''"

definition MRStatusClosed :: string where
  "MRStatusClosed = ''closed''"

text \<open>
  The durable store: every table is the list of its rows.  The metrics table is held in
  primary-key order, the order in which \<open>First\<close> looks for a row.  The tables of the
  reviews and of the assignments are read by queries that ask for no order
  (\<open>GetCompletedReviewsByDateRange\<close>, \<open>GetAssignmentsByMRReviewID\<close>): their lists
  hold the rows in the order in which the database serves them, which SQL leaves open
  and which may change from one run of the aggregator to the next (\<open>served\<close> below
  gives a store its rows in another order).  The operations of the store do not fail in
  the model; the error results of the source that only report a failure of the database
  have no counterpart here.
\<close>

record DB =
  users :: "User list"
  ooo_status :: "OOOStatus list"
  mr_reviews :: "MRReview list"
  reviewer_assignments :: "ReviewerAssignment list"
  review_metrics :: "ReviewMetrics list"
  badges :: "Badge list"
  user_badges :: "UserBadge list"

definition served :: "MRReview list \<Rightarrow> ReviewerAssignment list \<Rightarrow> DB \<Rightarrow> DB" where
  "served reviews assignments db = db\<lparr>mr_reviews := reviews, reviewer_assignments := assignments\<rparr>"

definition same_rows :: "DB \<Rightarrow> MRReview list \<Rightarrow> ReviewerAssignment list \<Rightarrow> bool" where
  "same_rows db reviews assignments \<longleftrightarrow>
     mset reviews = mset (mr_reviews db) \<and> mset assignments = mset (reviewer_assignments db)"

section \<open>Review repository\<close>

definition between :: "time \<Rightarrow> time \<Rightarrow> time \<Rightarrow> bool" where
  "between x lo hi \<longleftrightarrow> lo \<le> x \<and> x \<le> hi"

text \<open>A comparison with a NULL column is not true in SQL: a missing timestamp is in no range.\<close>

definition between_opt :: "time option \<Rightarrow> time \<Rightarrow> time \<Rightarrow> bool" where
  "between_opt x lo hi = (case x of None \<Rightarrow> False | Some t \<Rightarrow> between t lo hi)"

definition GetCompletedReviewsByDateRange :: "DB \<Rightarrow> time \<Rightarrow> time \<Rightarrow> MRReview list" where
  "GetCompletedReviewsByDateRange db startDate endDate =
     filter (\<lambda>r. (between_opt (MergedAt r) startDate endDate
                   \<or> between_opt (ClosedAt r) startDate endDate)
                \<and> Status r \<in> set [MRStatusMerged, MRStatusClosed])
            (mr_reviews db)"

definition GetAssignmentsByMRReviewID :: "DB \<Rightarrow> nat \<Rightarrow> ReviewerAssignment list" where
  "GetAssignmentsByMRReviewID db mrReviewID =
     filter (\<lambda>a. MRReviewID a = mrReviewID) (reviewer_assignments db)"

section \<open>Metrics repository: the upsert\<close>

text \<open>
  \<open>CreateOrUpdate\<close> looks for the first row with the date and team of the metric whose
  \<open>user_id\<close> and \<open>project_id\<close> equal those of the metric, or are NULL where the metric
  has nil.  Without such a row it creates one; with one, it copies the id of the row found
  into the metric and saves the metric.

  \<open>Create\<close> and \<open>Save\<close> are those of the persistence library (GORM).  \<open>Create\<close> inserts
  the row under the next serial id and, when the \<open>CreatedAt\<close> of the struct is the zero
  time, fills it with the current time: \<open>clock n\<close> is the instant at which the row with
  id \<open>n\<close> is inserted.  \<open>Save\<close> of a struct with an id updates every column of the row
  with that primary key to the value of the struct, \<open>created_at\<close> included.
\<close>

definition matches_key :: "ReviewMetrics \<Rightarrow> ReviewMetrics \<Rightarrow> bool" where
  "matches_key metric r \<longleftrightarrow>
     Date r = Date metric \<and> rm_Team r = rm_Team metric
     \<and> (case rm_UserID metric of Some u \<Rightarrow> rm_UserID r = Some u | None \<Rightarrow> rm_UserID r = None)
     \<and> (case ProjectID metric of Some p \<Rightarrow> ProjectID r = Some p | None \<Rightarrow> ProjectID r = None)"

definition next_id :: "ReviewMetrics list \<Rightarrow> nat" where
  "next_id rows = Suc (fold max (map rm_ID rows) 0)"

definition Create :: "(nat \<Rightarrow> time) \<Rightarrow> ReviewMetrics \<Rightarrow> ReviewMetrics list \<Rightarrow> ReviewMetrics list" where
  "Create clock metric rows =
     (let id = next_id rows;
          createdAt = (if rm_CreatedAt metric = zero_Time then clock id else rm_CreatedAt metric)
      in rows @ [metric\<lparr>rm_ID := id, rm_CreatedAt := createdAt\<rparr>])"

definition Save :: "ReviewMetrics \<Rightarrow> ReviewMetrics list \<Rightarrow> ReviewMetrics list" where
  "Save metric rows = map (\<lambda>r. if rm_ID r = rm_ID metric then metric else r) rows"

definition CreateOrUpdate ::
  "(nat \<Rightarrow> time) \<Rightarrow> ReviewMetrics \<Rightarrow> ReviewMetrics list \<Rightarrow> ReviewMetrics list" where
  "CreateOrUpdate clock metric rows =
     (case find (matches_key metric) rows of
        None \<Rightarrow> Create clock metric rows
      | Some existing \<Rightarrow> Save (metric\<lparr>rm_ID := rm_ID existing\<rparr>) rows)"

section \<open>Daily aggregator\<close>

text \<open>The running totals of the loop of \<open>aggregateTeamMetrics\<close>.\<close>

record team_totals =
  totalTTFR :: rat
  totalTimeToApproval :: rat
  ttfrCount :: int
  approvalCount :: int
  totalCommentCount :: int
  totalCommentLength :: int
  completedCount :: int

definition zero_totals :: team_totals where
  "zero_totals = \<lparr>totalTTFR = 0, totalTimeToApproval = 0, ttfrCount = 0, approvalCount = 0,
                   totalCommentCount = 0, totalCommentLength = 0, completedCount = 0\<rparr>"

definition add_comments :: "ReviewerAssignment \<Rightarrow> team_totals \<Rightarrow> team_totals" where
  "add_comments assignment acc =
     acc\<lparr>totalCommentCount := totalCommentCount acc + CommentCount assignment,
         totalCommentLength := totalCommentLength acc + CommentLength assignment\<rparr>"

definition team_review_step :: "DB \<Rightarrow> MRReview \<Rightarrow> team_totals \<Rightarrow> team_totals" where
  "team_review_step db review acc =
     (let acc1 = (if Status review = MRStatusMerged
                  then acc\<lparr>completedCount := completedCount acc + 1\<rparr> else acc);
          acc2 = (case (FirstReviewAt review, RouletteTriggeredAt review) of
                    (Some fr, Some tr) \<Rightarrow>
                      (let ttfr = Duration_Seconds (Time_Sub fr tr)
                       in if 0 \<le> ttfr
                          then acc1\<lparr>totalTTFR := totalTTFR acc1 + ttfr,
                                    ttfrCount := ttfrCount acc1 + 1\<rparr>
                          else acc1)
                  | _ \<Rightarrow> acc1);
          acc3 = (case (mr_ApprovedAt review, RouletteTriggeredAt review) of
                    (Some ap, Some tr) \<Rightarrow>
                      (let approvalTime = Duration_Seconds (Time_Sub ap tr)
                       in if 0 \<le> approvalTime
                          then acc2\<lparr>totalTimeToApproval := totalTimeToApproval acc2 + approvalTime,
                                    approvalCount := approvalCount acc2 + 1\<rparr>
                          else acc2)
                  | _ \<Rightarrow> acc2);
          assignments = GetAssignmentsByMRReviewID db (mr_ID review)
      in fold add_comments assignments acc3)"

text \<open>
  The row that \<open>aggregateTeamMetrics\<close> builds and hands to \<open>CreateOrUpdate\<close>.  The
  struct literal of the source names neither \<open>ID\<close> nor \<open>CreatedAt\<close>: both are zero.
\<close>

definition team_metric :: "DB \<Rightarrow> time \<Rightarrow> string \<Rightarrow> MRReview list \<Rightarrow> ReviewMetrics" where
  "team_metric db date team reviews =
     (let t = fold (team_review_step db) reviews zero_totals;
          avgTTFR = (if 0 < ttfrCount t then totalTTFR t / of_int (ttfrCount t) else 0);
          avgTimeToApproval =
            (if 0 < approvalCount t then totalTimeToApproval t / of_int (approvalCount t) else 0);
          avgCommentCount =
            (if 0 < length reviews then of_int (totalCommentCount t) / of_nat (length reviews) else 0);
          avgCommentLength =
            (if 0 < length reviews then of_int (totalCommentLength t) / of_nat (length reviews) else 0);
          engagementScore =
            (if 0 < length reviews then avgCommentCount * 10 + avgCommentLength / 100 else 0);
          avgTTFRMinutes = (if 0 < ttfrCount t then Some (go_int (avgTTFR / 60)) else None);
          avgTimeToApprovalMinutes =
            (if 0 < approvalCount t then Some (go_int (avgTimeToApproval / 60)) else None)
      in \<lparr>rm_ID = 0, Date = date, rm_Team = team, rm_UserID = None, ProjectID = None,
          TotalReviews = int (length reviews), CompletedReviews = completedCount t,
          AvgTTFR = avgTTFRMinutes, AvgTimeToApproval = avgTimeToApprovalMinutes,
          AvgCommentCount = Some avgCommentCount, AvgCommentLength = Some avgCommentLength,
          EngagementScore = Some engagementScore, rm_CreatedAt = zero_Time\<rparr>)"

definition aggregateTeamMetrics ::
  "(nat \<Rightarrow> time) \<Rightarrow> time \<Rightarrow> string \<Rightarrow> MRReview list \<Rightarrow> DB \<Rightarrow> DB" where
  "aggregateTeamMetrics clock date team reviews db =
     db\<lparr>review_metrics :=
          CreateOrUpdate clock (team_metric db date team reviews) (review_metrics db)\<rparr>"

text \<open>\<open>CalculateEngagementScore\<close>, called with a non-nil assignment.\<close>

definition CalculateEngagementScore :: "ReviewerAssignment \<Rightarrow> rat" where
  "CalculateEngagementScore assignment =
     (let score = 0;
          score = score + of_int (CommentCount assignment) * 10;
          score = score + of_int (CommentLength assignment) / 100
      in score)"

text \<open>\<open>t.Unix()\<close>: the whole seconds since the epoch.\<close>

definition Time_Unix :: "time \<Rightarrow> int" where
  "Time_Unix t = t div Second"

text \<open>The row that \<open>aggregateUserMetrics\<close> builds for one assignment of a review.\<close>

definition user_metric :: "time \<Rightarrow> MRReview \<Rightarrow> ReviewerAssignment \<Rightarrow> ReviewMetrics" where
  "user_metric date review assignment =
     (let avgTTFR =
            (case FirstCommentAt assignment of
               Some fc \<Rightarrow>
                 (if 0 < Time_Unix (AssignedAt assignment)
                  then (let ttfr = Duration_Seconds (Time_Sub fc (AssignedAt assignment))
                        in if 0 \<le> ttfr then ttfr else 0)
                  else 0)
             | None \<Rightarrow> 0);
          avgTimeToApproval =
            (case ra_ApprovedAt assignment of
               Some ap \<Rightarrow>
                 (if 0 < Time_Unix (AssignedAt assignment)
                  then (let approvalTime = Duration_Seconds (Time_Sub ap (AssignedAt assignment))
                        in if 0 \<le> approvalTime then approvalTime else 0)
                  else 0)
             | None \<Rightarrow> 0);
          engagementScore = CalculateEngagementScore assignment;
          avgTTFRMinutes = (if 0 < avgTTFR then Some (go_int (avgTTFR / 60)) else None);
          avgTimeToApprovalMinutes =
            (if 0 < avgTimeToApproval then Some (go_int (avgTimeToApproval / 60)) else None);
          commentCount = of_int (CommentCount assignment);
          commentLength = of_int (CommentLength assignment);
          completedReviews = (if Status review = MRStatusMerged then 1 else 0)
      in \<lparr>rm_ID = 0, Date = date, rm_Team = mr_Team review,
          rm_UserID = Some (ra_UserID assignment), ProjectID = Some (GitLabProjectID review),
          TotalReviews = 1, CompletedReviews = completedReviews,
          AvgTTFR = avgTTFRMinutes, AvgTimeToApproval = avgTimeToApprovalMinutes,
          AvgCommentCount = Some commentCount, AvgCommentLength = Some commentLength,
          EngagementScore = Some engagementScore, rm_CreatedAt = zero_Time\<rparr>)"

definition aggregator_aggregateUserMetrics ::
  "(nat \<Rightarrow> time) \<Rightarrow> time \<Rightarrow> MRReview \<Rightarrow> DB \<Rightarrow> DB" where
  "aggregator_aggregateUserMetrics clock date review db =
     (let assignments = GetAssignmentsByMRReviewID db (mr_ID review)
      in fold (\<lambda>assignment d.
                 d\<lparr>review_metrics :=
                     CreateOrUpdate clock (user_metric date review assignment) (review_metrics d)\<rparr>)
              assignments db)"

text \<open>
  \<open>AggregateDaily\<close>.  The date is normalised to the start of its day, its location taken
  to be UTC.  The reviews of the day are grouped by team in a Go map, and \<open>range\<close>
  visits the keys of a map in an order that the language leaves open and that changes
  from one loop to the next: the order of that visit is the parameter \<open>order\<close>, a
  list of the teams of the map without repetition (\<open>team_order\<close> says so).  The
  parameter \<open>clock\<close> is the clock of the inserts.
\<close>

definition startOfDay :: "time \<Rightarrow> time" where
  "startOfDay date = date - date mod (24 * Hour)"

definition teamReviews :: "MRReview list \<Rightarrow> string \<Rightarrow> MRReview list" where
  "teamReviews reviews team = filter (\<lambda>r. mr_Team r = team) reviews"

definition team_order :: "MRReview list \<Rightarrow> string list \<Rightarrow> bool" where
  "team_order reviews order \<longleftrightarrow> distinct order \<and> set order = set (map mr_Team reviews)"

definition AggregateDaily :: "string list \<Rightarrow> (nat \<Rightarrow> time) \<Rightarrow> time \<Rightarrow> DB \<Rightarrow> DB" where
  "AggregateDaily order clock date db =
     (let start = startOfDay date;
          endOfDay = start + 24 * Hour;
          reviews = GetCompletedReviewsByDateRange db start endOfDay
      in if length reviews = 0 then db
         else (let db1 = fold (\<lambda>team. aggregateTeamMetrics clock start team (teamReviews reviews team))
                              order db;
                   db2 = fold (aggregator_aggregateUserMetrics clock start) reviews db1
               in db2))"

text \<open>
  For the second run of the aggregator: the key of a metrics row, a table that holds
  its rows in the order of strictly increasing ids, the effect of an upsert that finds
  its key (the first row with the key takes the columns of the metric and keeps its id),
  a row without its \<open>created_at\<close>, the clock that shows the zero time, and the rows
  that one run of \<open>AggregateDaily\<close> hands to \<open>CreateOrUpdate\<close>, in order.
\<close>

definition metric_key :: "ReviewMetrics \<Rightarrow> time \<times> string \<times> nat option \<times> int option" where
  "metric_key m = (Date m, rm_Team m, rm_UserID m, ProjectID m)"

definition wf_metrics :: "ReviewMetrics list \<Rightarrow> bool" where
  "wf_metrics rows \<longleftrightarrow> sorted_wrt (<) (map rm_ID rows)"

fun replace_first :: "ReviewMetrics \<Rightarrow> ReviewMetrics list \<Rightarrow> ReviewMetrics list" where
  "replace_first m [] = []"
| "replace_first m (r # rs) =
     (if metric_key r = metric_key m then m\<lparr>rm_ID := rm_ID r\<rparr> # rs else r # replace_first m rs)"

definition without_created :: "ReviewMetrics \<Rightarrow> ReviewMetrics" where
  "without_created r = r\<lparr>rm_CreatedAt := zero_Time\<rparr>"

definition stopped_clock :: "nat \<Rightarrow> time" where
  "stopped_clock n = zero_Time"

definition day_reviews :: "time \<Rightarrow> DB \<Rightarrow> MRReview list" where
  "day_reviews date db =
     GetCompletedReviewsByDateRange db (startOfDay date) (startOfDay date + 24 * Hour)"

definition team_writes :: "string list \<Rightarrow> time \<Rightarrow> DB \<Rightarrow> ReviewMetrics list" where
  "team_writes order date db =
     map (\<lambda>team. team_metric db (startOfDay date) team (teamReviews (day_reviews date db) team)) order"

definition user_writes :: "time \<Rightarrow> DB \<Rightarrow> ReviewMetrics list" where
  "user_writes date db =
     concat (map (\<lambda>review. map (user_metric (startOfDay date) review)
                               (GetAssignmentsByMRReviewID db (mr_ID review)))
                 (day_reviews date db))"

definition day_writes :: "string list \<Rightarrow> time \<Rightarrow> DB \<Rightarrow> ReviewMetrics list" where
  "day_writes order date db =
     (if day_reviews date db = [] then [] else team_writes order date db @ user_writes date db)"

section \<open>Library: maps and sorting\<close>

text \<open>
  A Go map that the code fills and then walks is an association list with one pair for
  each key.  \<open>map_modify k z f\<close> is the statement \<open>m[k] = f(m[k])\<close>, where reading an
  absent key gives the zero value \<open>z\<close>.
\<close>

fun map_modify :: "'k \<Rightarrow> 'v \<Rightarrow> ('v \<Rightarrow> 'v) \<Rightarrow> ('k \<times> 'v) list \<Rightarrow> ('k \<times> 'v) list" where
  "map_modify k z f [] = [(k, f z)]"
| "map_modify k z f ((k', w) # kvs) =
     (if k' = k then (k', f w) # kvs else (k', w) # map_modify k z f kvs)"

text \<open>
  \<open>sort.Slice\<close> belongs to the Go library.  It is not stable, and the slices it is given
  here were filled by walking a map, in an order that Go leaves open.  The functions that
  sort therefore take the sorting function as their parameter \<open>srt\<close>, and
  \<open>sort_Slice_ok srt lt\<close> states what the library promises for the comparison
  \<open>lt\<close>: the result is a rearrangement of the slice in which no element is less than
  one before it.  \<open>insertion_sort\<close> is one function that keeps the promise.
\<close>

definition sort_Slice_ok :: "(('a \<Rightarrow> 'a \<Rightarrow> bool) \<Rightarrow> 'a list \<Rightarrow> 'a list) \<Rightarrow> ('a \<Rightarrow> 'a \<Rightarrow> bool) \<Rightarrow> bool" where
  "sort_Slice_ok srt lt \<longleftrightarrow>
     (\<forall>xs. mset (srt lt xs) = mset xs \<and> sorted_wrt (\<lambda>a b. \<not> lt b a) (srt lt xs))"

fun insert_by :: "('a \<Rightarrow> 'a \<Rightarrow> bool) \<Rightarrow> 'a \<Rightarrow> 'a list \<Rightarrow> 'a list" where
  "insert_by lt x [] = [x]"
| "insert_by lt x (y # ys) = (if lt x y then x # y # ys else y # insert_by lt x ys)"

definition insertion_sort :: "('a \<Rightarrow> 'a \<Rightarrow> bool) \<Rightarrow> 'a list \<Rightarrow> 'a list" where
  "insertion_sort lt xs = foldr (insert_by lt) xs []"

section \<open>Metrics repository: the queries\<close>

text \<open>
  The filters of \<open>GetByDateRange\<close> are a map from column names to values, of which the
  query reads three keys.  Both queries order by date; the order of the rows has no
  influence on what is computed from them here and is not modelled.
\<close>

record Filters =
  filter_team :: "string option"
  filter_user_id :: "nat option"
  filter_project_id :: "int option"

definition no_filters :: Filters where
  "no_filters = \<lparr>filter_team = None, filter_user_id = None, filter_project_id = None\<rparr>"

definition GetByDateRange :: "DB \<Rightarrow> time \<Rightarrow> time \<Rightarrow> Filters \<Rightarrow> ReviewMetrics list" where
  "GetByDateRange db startDate endDate filters =
     filter (\<lambda>m. between (Date m) startDate endDate
                \<and> (case filter_team filters of
                      Some team \<Rightarrow> team \<noteq> [] \<longrightarrow> rm_Team m = team | None \<Rightarrow> True)
                \<and> (case filter_user_id filters of
                      Some userID \<Rightarrow> rm_UserID m = Some userID | None \<Rightarrow> True)
                \<and> (case filter_project_id filters of
                      Some projectID \<Rightarrow> ProjectID m = Some projectID | None \<Rightarrow> True))
            (review_metrics db)"

definition GetMetricsByUser :: "DB \<Rightarrow> nat \<Rightarrow> time \<Rightarrow> time \<Rightarrow> ReviewMetrics list" where
  "GetMetricsByUser db userID startDate endDate =
     filter (\<lambda>m. rm_UserID m = Some userID \<and> between (Date m) startDate endDate)
            (review_metrics db)"

section \<open>Badge repository and user repository\<close>

text \<open>
  The errors that the code itself raises.  \<open>AwardBadge\<close> returns an error only when the
  database fails, so its error result is always nil here; it is kept in the result to
  say so.
\<close>

datatype error =
    ParseCriteriaFailed
  | InvalidValueTypeForTop
  | InvalidValueType
  | UnsupportedOperator string
  | TopRankingNotSupported string
  | UserNotFoundInLeaderboard

definition HasUserEarnedBadge :: "DB \<Rightarrow> nat \<Rightarrow> nat \<Rightarrow> bool" where
  "HasUserEarnedBadge db userID badgeID =
     (let count = length (filter (\<lambda>ub. ub_UserID ub = userID \<and> BadgeID ub = badgeID)
                                 (user_badges db))
      in 0 < count)"

definition next_user_badge_id :: "UserBadge list \<Rightarrow> nat" where
  "next_user_badge_id rows = Suc (fold max (map ub_ID rows) 0)"

definition repo_AwardBadge :: "time \<Rightarrow> nat \<Rightarrow> nat \<Rightarrow> DB \<Rightarrow> error option \<times> DB" where
  "repo_AwardBadge now userID badgeID db =
     (let exists = HasUserEarnedBadge db userID badgeID
      in if exists then (None, db)
         else (let userBadge = \<lparr>ub_ID = next_user_badge_id (user_badges db), ub_UserID = userID,
                                BadgeID = badgeID, EarnedAt = now\<rparr>
               in (None, db\<lparr>user_badges := user_badges db @ [userBadge]\<rparr>)))"

definition GetUserBadgeCount :: "DB \<Rightarrow> nat \<Rightarrow> int" where
  "GetUserBadgeCount db userID = int (length (filter (\<lambda>ub. ub_UserID ub = userID) (user_badges db)))"

definition GetByID :: "DB \<Rightarrow> nat \<Rightarrow> User option" where
  "GetByID db userID = find (\<lambda>u. u_ID u = userID) (users db)"

section \<open>Badge evaluator\<close>

definition sum_opt_int :: "(ReviewMetrics \<Rightarrow> int option) \<Rightarrow> ReviewMetrics list \<Rightarrow> rat" where
  "sum_opt_int f ms = sum_list (map (\<lambda>m. case f m of Some v \<Rightarrow> of_int v | None \<Rightarrow> 0) ms)"

definition sum_opt_rat :: "(ReviewMetrics \<Rightarrow> rat option) \<Rightarrow> ReviewMetrics list \<Rightarrow> rat" where
  "sum_opt_rat f ms = sum_list (map (\<lambda>m. case f m of Some v \<Rightarrow> v | None \<Rightarrow> 0) ms)"

text \<open>
  \<open>aggregateUserMetrics\<close> of the badge evaluator returns a map from metric names to
  values: empty when the user has no row in the window.
\<close>

definition badges_aggregateUserMetrics :: "DB \<Rightarrow> nat \<Rightarrow> time \<Rightarrow> time \<Rightarrow> (string \<rightharpoonup> rat)" where
  "badges_aggregateUserMetrics db userID startDate endDate =
     (let userMetrics = GetMetricsByUser db userID startDate endDate
      in if length userMetrics = 0 then Map.empty
         else (let totalTTFR = sum_opt_int AvgTTFR userMetrics;
                   totalCommentCount = sum_opt_rat AvgCommentCount userMetrics;
                   totalCommentLength = sum_opt_rat AvgCommentLength userMetrics;
                   totalEngagementScore = sum_opt_rat EngagementScore userMetrics;
                   totalCompletedReviews = sum_list (map CompletedReviews userMetrics);
                   metricsCount = length userMetrics;
                   metrics = (if 0 < metricsCount
                              then [''avg_ttfr'' \<mapsto> totalTTFR / of_nat metricsCount,
                                    ''avg_comment_count'' \<mapsto> totalCommentCount / of_nat metricsCount,
                                    ''avg_comment_length'' \<mapsto> totalCommentLength / of_nat metricsCount,
                                    ''engagement_score'' \<mapsto> totalEngagementScore / of_nat metricsCount]
                              else Map.empty)
               in metrics(''completed_reviews'' \<mapsto> of_int totalCompletedReviews,
                          ''external_reviews'' \<mapsto> of_int totalCompletedReviews)))"

definition evaluateMetricCriteria :: "string \<Rightarrow> rat \<Rightarrow> rat \<Rightarrow> error + bool" where
  "evaluateMetricCriteria operator threshold actualValue =
     (if operator = ''<'' then Inr (actualValue < threshold)
      else if operator = ''<='' then Inr (actualValue \<le> threshold)
      else if operator = ''>'' then Inr (threshold < actualValue)
      else if operator = ''>='' then Inr (threshold \<le> actualValue)
      else if operator = ''=='' then Inr (actualValue = threshold)
      else Inl (UnsupportedOperator operator))"

definition getMetricValue :: "ReviewMetrics \<Rightarrow> string \<Rightarrow> error + rat" where
  "getMetricValue m metric =
     (if metric = ''completed_reviews'' then Inr (of_int (CompletedReviews m))
      else if metric = ''engagement_score''
        then (case EngagementScore m of Some v \<Rightarrow> Inr v | None \<Rightarrow> Inr 0)
      else if metric = ''avg_ttfr''
        then (case AvgTTFR m of Some v \<Rightarrow> Inr (of_int v) | None \<Rightarrow> Inr 0)
      else if metric = ''avg_comment_count''
        then (case AvgCommentCount m of Some v \<Rightarrow> Inr v | None \<Rightarrow> Inr 0)
      else Inl (TopRankingNotSupported metric))"

fun badges_aggregateMetricsByUser_loop ::
  "string \<Rightarrow> ReviewMetrics list \<Rightarrow> (nat \<times> rat) list \<Rightarrow> error + (nat \<times> rat) list" where
  "badges_aggregateMetricsByUser_loop metric [] userAggregates = Inr userAggregates"
| "badges_aggregateMetricsByUser_loop metric (m # ms) userAggregates =
     (case rm_UserID m of
        None \<Rightarrow> badges_aggregateMetricsByUser_loop metric ms userAggregates
      | Some userID \<Rightarrow>
          (case getMetricValue m metric of
             Inl err \<Rightarrow> Inl err
           | Inr v \<Rightarrow> badges_aggregateMetricsByUser_loop metric ms
                        (map_modify userID 0 (\<lambda>w. w + v) userAggregates)))"

definition badges_aggregateMetricsByUser ::
  "ReviewMetrics list \<Rightarrow> string \<Rightarrow> error + (nat \<times> rat) list" where
  "badges_aggregateMetricsByUser allMetrics metric =
     badges_aggregateMetricsByUser_loop metric allMetrics []"

record userRank =
  ur_userID :: nat
  ur_value :: rat

text \<open>The comparison that \<open>sortUserRankings\<close> hands to \<open>sort.Slice\<close>.\<close>

definition userRank_less :: "userRank \<Rightarrow> userRank \<Rightarrow> bool" where
  "userRank_less a b \<longleftrightarrow> ur_value b < ur_value a"

definition sortUserRankings ::
  "((userRank \<Rightarrow> userRank \<Rightarrow> bool) \<Rightarrow> userRank list \<Rightarrow> userRank list)
   \<Rightarrow> (nat \<times> rat) list \<Rightarrow> userRank list" where
  "sortUserRankings srt userAggregates =
     (let rankings = map (\<lambda>(uid, val). \<lparr>ur_userID = uid, ur_value = val\<rparr>) userAggregates
      in srt userRank_less rankings)"

text \<open>
  \<open>evaluateTopRanking\<close>: the loop over the first \<open>topN\<close> places of the ranking returns
  true at the place that holds the user.
\<close>

definition evaluateTopRanking ::
  "((userRank \<Rightarrow> userRank \<Rightarrow> bool) \<Rightarrow> userRank list \<Rightarrow> userRank list)
   \<Rightarrow> DB \<Rightarrow> time \<Rightarrow> string \<Rightarrow> int \<Rightarrow> string \<Rightarrow> nat \<Rightarrow> error + bool" where
  "evaluateTopRanking srt db now metric topN period userID =
     (let (startDate, endDate) = badges_calculatePeriodRange now period;
          allMetrics = GetByDateRange db startDate endDate no_filters
      in case badges_aggregateMetricsByUser allMetrics metric of
           Inl err \<Rightarrow> Inl err
         | Inr userAggregates \<Rightarrow>
             (let rankings = sortUserRankings srt userAggregates
              in Inr (userID \<in> set (map ur_userID (take (nat topN) rankings)))))"

text \<open>
  \<open>checkCriteria\<close> reads the clock when it computes the window of the user's metrics
  (\<open>now\<close>), and \<open>evaluateTopRanking\<close> reads it again (\<open>now'\<close>).
\<close>

definition checkCriteria ::
  "((userRank \<Rightarrow> userRank \<Rightarrow> bool) \<Rightarrow> userRank list \<Rightarrow> userRank list)
   \<Rightarrow> time \<Rightarrow> time \<Rightarrow> DB \<Rightarrow> BadgeCriteria \<Rightarrow> nat \<Rightarrow> error + bool" where
  "checkCriteria srt now now' db criteria userID =
     (let (startDate, endDate) = badges_calculatePeriodRange now (Period criteria);
          userMetrics = badges_aggregateUserMetrics db userID startDate endDate
      in case userMetrics (Metric criteria) of
           None \<Rightarrow> Inr False
         | Some metricValue \<Rightarrow>
             (if Operator criteria = ''top''
              then (case Value criteria of
                      JNumber topN \<Rightarrow>
                        evaluateTopRanking srt db now' (Metric criteria) (go_int topN)
                                           (Period criteria) userID
                    | _ \<Rightarrow> Inl InvalidValueTypeForTop)
              else (case Value criteria of
                      JNumber threshold \<Rightarrow>
                        evaluateMetricCriteria (Operator criteria) threshold metricValue
                    | _ \<Rightarrow> Inl InvalidValueType)))"

definition EvaluateBadge ::
  "((userRank \<Rightarrow> userRank \<Rightarrow> bool) \<Rightarrow> userRank list \<Rightarrow> userRank list)
   \<Rightarrow> time \<Rightarrow> time \<Rightarrow> DB \<Rightarrow> Badge \<Rightarrow> nat \<Rightarrow> error + bool" where
  "EvaluateBadge srt now now' db badge userID =
     (case Criteria badge of
        None \<Rightarrow> Inl ParseCriteriaFailed
      | Some criteria \<Rightarrow> checkCriteria srt now now' db criteria userID)"

text \<open>
  For the ranking claims: the value that a row contributes to the ranking of a metric,
  the sum of those values over the rows of a user, the step of the loop of
  \<open>aggregateMetricsByUser\<close> for a supported metric, the value that the map of
  aggregates holds for a user, and the numbers of its entries whose value is above, or
  at least, the value of a user.
\<close>

definition metric_value :: "string \<Rightarrow> ReviewMetrics \<Rightarrow> rat" where
  "metric_value metric m = (case getMetricValue m metric of Inr v \<Rightarrow> v | Inl err \<Rightarrow> 0)"

definition user_total :: "ReviewMetrics list \<Rightarrow> string \<Rightarrow> nat \<Rightarrow> rat" where
  "user_total rows metric u =
     sum_list (map (metric_value metric) (filter (\<lambda>m. rm_UserID m = Some u) rows))"

definition total_of :: "(nat \<times> rat) list \<Rightarrow> nat \<Rightarrow> rat" where
  "total_of aggs u = (case map_of aggs u of Some v \<Rightarrow> v | None \<Rightarrow> 0)"

definition count_above :: "(nat \<times> rat) list \<Rightarrow> nat \<Rightarrow> nat" where
  "count_above aggs u = length (filter (\<lambda>p. total_of aggs u < snd p) aggs)"

definition count_at_least :: "(nat \<times> rat) list \<Rightarrow> nat \<Rightarrow> nat" where
  "count_at_least aggs u = length (filter (\<lambda>p. total_of aggs u \<le> snd p) aggs)"

definition add_row :: "string \<Rightarrow> ReviewMetrics \<Rightarrow> (nat \<times> rat) list \<Rightarrow> (nat \<times> rat) list" where
  "add_row metric m acc =
     (case rm_UserID m of None \<Rightarrow> acc
      | Some u \<Rightarrow> map_modify u 0 (\<lambda>w. w + metric_value metric m) acc)"

section \<open>Badge service\<close>

text \<open>
  \<open>AwardBadge\<close> of the service awards through the repository and then records
  observability counters, which are not modelled.  In \<open>EvaluateAllBadges\<close> the call of
  \<open>EvaluateBadge\<close> depends on the clock and on the sorting of the ranking; what the
  call returns for a store, a badge and a user is the parameter \<open>ev\<close> (for instance
  \<open>EvaluateBadge srt now now'\<close>), and \<open>clock userID badgeID\<close> is the reading of the clock
  when that pair is awarded.  The result is the store and the number of badges awarded.
\<close>

definition AwardBadge :: "time \<Rightarrow> nat \<Rightarrow> Badge \<Rightarrow> DB \<Rightarrow> error option \<times> DB" where
  "AwardBadge now userID badge db = repo_AwardBadge now userID (b_ID badge) db"

definition evaluate_pair ::
  "(DB \<Rightarrow> Badge \<Rightarrow> nat \<Rightarrow> error + bool) \<Rightarrow> (nat \<Rightarrow> nat \<Rightarrow> time) \<Rightarrow> Badge \<Rightarrow> User
   \<Rightarrow> DB \<times> int \<Rightarrow> DB \<times> int" where
  "evaluate_pair ev clock badge user st =
     (let (db, awardsCount) = st;
          hasEarned = HasUserEarnedBadge db (u_ID user) (b_ID badge)
      in if hasEarned then (db, awardsCount)
         else (case ev db badge (u_ID user) of
                 Inl err \<Rightarrow> (db, awardsCount)
               | Inr qualifies \<Rightarrow>
                   (if qualifies
                    then (case AwardBadge (clock (u_ID user) (b_ID badge)) (u_ID user) badge db of
                            (Some err, db') \<Rightarrow> (db', awardsCount)
                          | (None, db') \<Rightarrow> (db', awardsCount + 1))
                    else (db, awardsCount))))"

definition EvaluateAllBadges ::
  "(DB \<Rightarrow> Badge \<Rightarrow> nat \<Rightarrow> error + bool) \<Rightarrow> (nat \<Rightarrow> nat \<Rightarrow> time) \<Rightarrow> DB \<Rightarrow> DB \<times> int" where
  "EvaluateAllBadges ev clock db =
     (let all_badges = badges db;
          all_users = users db
      in fold (\<lambda>badge. fold (evaluate_pair ev clock badge) all_users) all_badges (db, 0))"

text \<open>A sequence of invocations, each with its own evaluation outcomes and clock.\<close>

definition EvaluateAllBadges_runs ::
  "((DB \<Rightarrow> Badge \<Rightarrow> nat \<Rightarrow> error + bool) \<times> (nat \<Rightarrow> nat \<Rightarrow> time)) list \<Rightarrow> DB \<Rightarrow> DB" where
  "EvaluateAllBadges_runs runs db =
     fold (\<lambda>(ev, clock) d. fst (EvaluateAllBadges ev clock d)) runs db"

definition count_user_badge :: "DB \<Rightarrow> nat \<Rightarrow> nat \<Rightarrow> nat" where
  "count_user_badge db userID badgeID =
     length (filter (\<lambda>ub. ub_UserID ub = userID \<and> BadgeID ub = badgeID) (user_badges db))"

definition badge_unique :: "DB \<Rightarrow> bool" where
  "badge_unique db \<longleftrightarrow> (\<forall>u b. count_user_badge db u b \<le> 1)"

section \<open>Leaderboard\<close>

record aggregatedMetrics =
  agg_CompletedReviews :: int
  TotalTTFR :: rat
  TotalCommentCount :: rat
  TotalEngagementScore :: rat
  MetricsCount :: int
  agg_AvgTTFR :: rat
  agg_AvgCommentCount :: rat
  agg_EngagementScore :: rat

record Entry =
  e_UserID :: nat
  e_Username :: string
  e_Team :: string
  e_CompletedReviews :: int
  e_AvgTTFR :: rat
  e_AvgCommentCount :: rat
  e_EngagementScore :: rat
  BadgeCount :: int
  Rank :: int

definition zero_aggregatedMetrics :: aggregatedMetrics where
  "zero_aggregatedMetrics =
     \<lparr>agg_CompletedReviews = 0, TotalTTFR = 0, TotalCommentCount = 0, TotalEngagementScore = 0,
      MetricsCount = 0, agg_AvgTTFR = 0, agg_AvgCommentCount = 0, agg_EngagementScore = 0\<rparr>"

definition add_metric :: "ReviewMetrics \<Rightarrow> aggregatedMetrics \<Rightarrow> aggregatedMetrics" where
  "add_metric m agg =
     (let agg = agg\<lparr>agg_CompletedReviews := agg_CompletedReviews agg + CompletedReviews m,
                    MetricsCount := MetricsCount agg + 1\<rparr>;
          agg = (case AvgTTFR m of
                   Some v \<Rightarrow> agg\<lparr>TotalTTFR := TotalTTFR agg + of_int v\<rparr> | None \<Rightarrow> agg);
          agg = (case AvgCommentCount m of
                   Some v \<Rightarrow> agg\<lparr>TotalCommentCount := TotalCommentCount agg + v\<rparr> | None \<Rightarrow> agg);
          agg = (case EngagementScore m of
                   Some v \<Rightarrow> agg\<lparr>TotalEngagementScore := TotalEngagementScore agg + v\<rparr>
                 | None \<Rightarrow> agg)
      in agg)"

definition calc_averages :: "aggregatedMetrics \<Rightarrow> aggregatedMetrics" where
  "calc_averages agg =
     (if 0 < MetricsCount agg
      then agg\<lparr>agg_AvgTTFR := TotalTTFR agg / of_int (MetricsCount agg),
               agg_AvgCommentCount := TotalCommentCount agg / of_int (MetricsCount agg),
               agg_EngagementScore := TotalEngagementScore agg / of_int (MetricsCount agg)\<rparr>
      else agg)"

definition leaderboard_aggregateMetricsByUser ::
  "ReviewMetrics list \<Rightarrow> (nat \<times> aggregatedMetrics) list" where
  "leaderboard_aggregateMetricsByUser metrics =
     (let userMetrics =
            fold (\<lambda>m um. case rm_UserID m of
                            None \<Rightarrow> um
                          | Some userID \<Rightarrow> map_modify userID zero_aggregatedMetrics (add_metric m) um)
                 metrics []
      in map (\<lambda>(userID, agg). (userID, calc_averages agg)) userMetrics)"

text \<open>
  The comparison that \<open>sortLeaderboard\<close> hands to \<open>sort.Slice\<close>, chosen by the metric,
  the cases in the order of the switch.
\<close>

definition leaderboard_less :: "string \<Rightarrow> Entry \<Rightarrow> Entry \<Rightarrow> bool" where
  "leaderboard_less metric a b =
     (if metric = ''completed_reviews'' then e_CompletedReviews b < e_CompletedReviews a
      else if metric = ''engagement_score'' then e_EngagementScore b < e_EngagementScore a
      else if metric = ''avg_ttfr'' then e_AvgTTFR a < e_AvgTTFR b
      else if metric = ''avg_comment_count'' then e_AvgCommentCount b < e_AvgCommentCount a
      else e_CompletedReviews b < e_CompletedReviews a)"

definition sortLeaderboard ::
  "((Entry \<Rightarrow> Entry \<Rightarrow> bool) \<Rightarrow> Entry list \<Rightarrow> Entry list) \<Rightarrow> Entry list \<Rightarrow> string \<Rightarrow> Entry list" where
  "sortLeaderboard srt entries metric = srt (leaderboard_less metric) entries"

definition assign_ranks :: "Entry list \<Rightarrow> Entry list" where
  "assign_ranks entries = map (\<lambda>(i, e). e\<lparr>Rank := int i + 1\<rparr>) (enumerate 0 entries)"

definition build_entry :: "DB \<Rightarrow> nat \<times> aggregatedMetrics \<Rightarrow> Entry list" where
  "build_entry db p =
     (let (userID, aggMetrics) = p
      in case GetByID db userID of
           None \<Rightarrow> []
         | Some user \<Rightarrow>
             [\<lparr>e_UserID = userID, e_Username = Username user, e_Team = u_Team user,
               e_CompletedReviews = agg_CompletedReviews aggMetrics,
               e_AvgTTFR = agg_AvgTTFR aggMetrics,
               e_AvgCommentCount = agg_AvgCommentCount aggMetrics,
               e_EngagementScore = agg_EngagementScore aggMetrics,
               BadgeCount = GetUserBadgeCount db userID, Rank = 0\<rparr>])"

definition getLeaderboard ::
  "((Entry \<Rightarrow> Entry \<Rightarrow> bool) \<Rightarrow> Entry list \<Rightarrow> Entry list)
   \<Rightarrow> DB \<Rightarrow> time \<Rightarrow> string \<Rightarrow> string \<Rightarrow> string \<Rightarrow> int \<Rightarrow> Entry list" where
  "getLeaderboard srt db now team period metric limit =
     (let (startDate, endDate) = leaderboard_calculatePeriodRange now period;
          filters = (if team \<noteq> [] then no_filters\<lparr>filter_team := Some team\<rparr> else no_filters);
          metrics = GetByDateRange db startDate endDate filters;
          userMetrics = leaderboard_aggregateMetricsByUser metrics;
          entries = concat (map (build_entry db) userMetrics);
          entries = sortLeaderboard srt entries metric;
          entries = assign_ranks entries
      in if 0 < limit \<and> limit < int (length entries) then take (nat limit) entries else entries)"

text \<open>The entries of \<open>getLeaderboard\<close> before they are sorted.\<close>

definition leaderboard_entries :: "DB \<Rightarrow> time \<Rightarrow> string \<Rightarrow> string \<Rightarrow> Entry list" where
  "leaderboard_entries db now team period =
     (let (startDate, endDate) = leaderboard_calculatePeriodRange now period;
          filters = (if team \<noteq> [] then no_filters\<lparr>filter_team := Some team\<rparr> else no_filters);
          metrics = GetByDateRange db startDate endDate filters;
          userMetrics = leaderboard_aggregateMetricsByUser metrics
      in concat (map (build_entry db) userMetrics))"

text \<open>
  Two counts that the ranking claims speak of: the entries that come strictly before a
  given entry in the order of the metric, and the entries tied with it (itself included).
\<close>

definition strictly_better :: "string \<Rightarrow> Entry list \<Rightarrow> Entry \<Rightarrow> nat" where
  "strictly_better metric es e = length (filter (\<lambda>e'. leaderboard_less metric e' e) es)"

definition tied :: "string \<Rightarrow> Entry list \<Rightarrow> Entry \<Rightarrow> nat" where
  "tied metric es e =
     length (filter (\<lambda>e'. \<not> leaderboard_less metric e' e \<and> \<not> leaderboard_less metric e e') es)"

definition GetGlobalLeaderboard ::
  "((Entry \<Rightarrow> Entry \<Rightarrow> bool) \<Rightarrow> Entry list \<Rightarrow> Entry list)
   \<Rightarrow> DB \<Rightarrow> time \<Rightarrow> string \<Rightarrow> string \<Rightarrow> int \<Rightarrow> Entry list" where
  "GetGlobalLeaderboard srt db now period metric limit =
     getLeaderboard srt db now [] period metric limit"

definition GetUserRank ::
  "((Entry \<Rightarrow> Entry \<Rightarrow> bool) \<Rightarrow> Entry list \<Rightarrow> Entry list)
   \<Rightarrow> DB \<Rightarrow> time \<Rightarrow> nat \<Rightarrow> string \<Rightarrow> string \<Rightarrow> error + int" where
  "GetUserRank srt db now userID period metric =
     (let leaderboard = GetGlobalLeaderboard srt db now period metric 0
      in case find (\<lambda>entry. e_UserID entry = userID) leaderboard of
           Some entry \<Rightarrow> Inr (Rank entry)
         | None \<Rightarrow> Inl UserNotFoundInLeaderboard)"

section \<open>Scenarios\<close>

text \<open>
  The aggregator scenario of the specification: one merged review of team frontend in
  project 100, merged at noon of 2025-01-15 UTC, with two assignments (users 1 and 2,
  5 and 3 comments of total length 500 and 300), and an empty metrics table.
  2025-01-15 00:00 UTC is 1736899200 seconds after the epoch.
\<close>

definition scenario_review :: MRReview where
  "scenario_review =
     \<lparr>mr_ID = 1, GitLabMRIID = 1, GitLabProjectID = 100, mr_Team = ''frontend'',
      RouletteTriggeredAt = None, FirstReviewAt = None, mr_ApprovedAt = None,
      MergedAt = Some 1736942400000000000, ClosedAt = None, Status = ''merged''\<rparr>"

definition scenario_assignment1 :: ReviewerAssignment where
  "scenario_assignment1 =
     \<lparr>ra_ID = 1, MRReviewID = 1, ra_UserID = 1, ra_Role = ''codeowner'', AssignedAt = 0,
      FirstCommentAt = None, ra_ApprovedAt = None, CommentCount = 5, CommentLength = 500\<rparr>"

definition scenario_assignment2 :: ReviewerAssignment where
  "scenario_assignment2 =
     \<lparr>ra_ID = 2, MRReviewID = 1, ra_UserID = 2, ra_Role = ''team_member'', AssignedAt = 0,
      FirstCommentAt = None, ra_ApprovedAt = None, CommentCount = 3, CommentLength = 300\<rparr>"

definition scenario_db :: DB where
  "scenario_db =
     \<lparr>users = [], ooo_status = [], mr_reviews = [scenario_review],
      reviewer_assignments = [scenario_assignment1, scenario_assignment2],
      review_metrics = [], badges = [], user_badges = []\<rparr>"

text \<open>
  The clock of the scenario: the aggregator runs after midnight of 2025-01-16 UTC, and
  the row with id \<open>n\<close> is inserted \<open>n\<close> seconds after midnight.
\<close>

definition scenario_clock :: "nat \<Rightarrow> time" where
  "scenario_clock n = 1736985600000000000 + int n * Second"

text \<open>
  The scenario with a second merged review of the same team and project, whose only
  assignment is a second assignment of user 1, with 3 comments of total length 300:
  the two assignments of user 1 have the same key (date, team, user, project).
\<close>

definition second_review :: MRReview where
  "second_review = scenario_review\<lparr>mr_ID := 2, GitLabMRIID := 2\<rparr>"

definition second_assignment :: ReviewerAssignment where
  "second_assignment = scenario_assignment2\<lparr>MRReviewID := 2, ra_UserID := 1\<rparr>"

definition same_key_db :: DB where
  "same_key_db =
     scenario_db\<lparr>mr_reviews := [scenario_review, second_review],
                 reviewer_assignments := [scenario_assignment1, second_assignment]\<rparr>"

text \<open>
  A metrics row of team frontend for 2025-01-15 as the aggregator writes it in these
  scenarios: id, user, project, number of reviews (all of them merged), comment count,
  comment length, engagement score and \<open>created_at\<close>.
\<close>

definition aggregated_row ::
  "nat \<Rightarrow> nat option \<Rightarrow> int option \<Rightarrow> int \<Rightarrow> rat \<Rightarrow> rat \<Rightarrow> rat \<Rightarrow> time \<Rightarrow> ReviewMetrics" where
  "aggregated_row i u p n cc cl es c =
     \<lparr>rm_ID = i, Date = 1736899200000000000, rm_Team = ''frontend'', rm_UserID = u,
      ProjectID = p, TotalReviews = n, CompletedReviews = n, AvgTTFR = None,
      AvgTimeToApproval = None, AvgCommentCount = Some cc, AvgCommentLength = Some cl,
      EngagementScore = Some es, rm_CreatedAt = c\<rparr>"

text \<open>
  The ranking scenario: alice (user 11) has two metrics rows and bob (user 12) has one;
  the badge \<open>speed_demon\<close> (badge 3) asks for an average time to first review below
  120 minutes.  All instants lie in January 2025.
\<close>

definition metrics_row :: "nat \<Rightarrow> time \<Rightarrow> nat \<Rightarrow> int \<Rightarrow> int \<Rightarrow> rat \<Rightarrow> rat \<Rightarrow> ReviewMetrics" where
  "metrics_row i d u cr ttfr cc es =
     \<lparr>rm_ID = i, Date = d, rm_Team = ''frontend'', rm_UserID = Some u, ProjectID = Some 100,
      TotalReviews = cr, CompletedReviews = cr, AvgTTFR = Some ttfr, AvgTimeToApproval = None,
      AvgCommentCount = Some cc, AvgCommentLength = None, EngagementScore = Some es,
      rm_CreatedAt = d + 24 * Hour\<rparr>"

definition alice :: User where
  "alice = \<lparr>u_ID = 11, GitLabID = 101, Username = ''alice'', Email = [], u_Role = ''dev'',
            u_Team = ''frontend''\<rparr>"

definition bob :: User where
  "bob = \<lparr>u_ID = 12, GitLabID = 102, Username = ''bob'', Email = [], u_Role = ''dev'',
          u_Team = ''frontend''\<rparr>"

definition speed_demon :: Badge where
  "speed_demon =
     \<lparr>b_ID = 3, Name = ''speed_demon'',
      Criteria = Some \<lparr>Metric = ''avg_ttfr'', Operator = ''<'', Value = JNumber 120, Period = []\<rparr>\<rparr>"

definition ranking_db :: DB where
  "ranking_db =
     \<lparr>users = [alice, bob], ooo_status = [], mr_reviews = [], reviewer_assignments = [],
      review_metrics = [metrics_row 1 1736899200000000000 11 5 60 2 10,
                        metrics_row 2 1736985600000000000 11 5 60 2 10,
                        metrics_row 3 1736899200000000000 12 8 120 3 15],
      badges = [speed_demon], user_badges = []\<rparr>"

definition ranking_now :: time where
  "ranking_now = 1737000000000000000"

definition top_criteria :: "string \<Rightarrow> rat \<Rightarrow> BadgeCriteria" where
  "top_criteria m n = \<lparr>Metric = m, Operator = ''top'', Value = JNumber n, Period = ''all_time''\<rparr>"

definition ge_criteria :: "string \<Rightarrow> rat \<Rightarrow> BadgeCriteria" where
  "ge_criteria m n = \<lparr>Metric = m, Operator = ''>='', Value = JNumber n, Period = ''all_time''\<rparr>"

definition badge_run :: "(DB \<Rightarrow> Badge \<Rightarrow> nat \<Rightarrow> error + bool) \<times> (nat \<Rightarrow> nat \<Rightarrow> time)" where
  "badge_run = (EvaluateBadge insertion_sort ranking_now ranking_now, \<lambda>u b. ranking_now)"

text \<open>
  The tie scenario: alice and bob have one metrics row each, with 5 completed reviews;
  the average time to first review of alice is 60 minutes, that of bob 90.
\<close>

definition tie_db :: DB where
  "tie_db = ranking_db\<lparr>review_metrics := [metrics_row 1 1736899200000000000 11 5 60 2 10,
                                          metrics_row 2 1736899200000000000 12 5 90 3 15]\<rparr>"

definition entry :: "User \<Rightarrow> int \<Rightarrow> rat \<Rightarrow> rat \<Rightarrow> rat \<Rightarrow> int \<Rightarrow> Entry" where
  "entry u cr ttfr cc es r =
     \<lparr>e_UserID = u_ID u, e_Username = Username u, e_Team = u_Team u, e_CompletedReviews = cr,
      e_AvgTTFR = ttfr, e_AvgCommentCount = cc, e_EngagementScore = es, BadgeCount = 0, Rank = r\<rparr>"

section \<open>Results: period windows\<close>

text \<open>
  C10.  \<open>calculatePeriodRange\<close>, in the badge evaluator and in the leaderboard service
  alike, is a total function into pairs of instants (it has no error result).  The
  window always ends at \<open>now\<close>; for day, week, month and year it starts 24 hours,
  7 days, 30 days and 365 days of 24 hours before \<open>now\<close>; for every other string
  (the empty string and unknown periods included) it starts on 2000-01-01 UTC.
\<close>

theorem calculatePeriodRange_windows:
  "badges_calculatePeriodRange now p = leaderboard_calculatePeriodRange now p
   \<and> snd (leaderboard_calculatePeriodRange now p) = now
   \<and> leaderboard_calculatePeriodRange now ''day'' = (now - 24 * Hour, now)
   \<and> leaderboard_calculatePeriodRange now ''week'' = (now - 7 * (24 * Hour), now)
   \<and> leaderboard_calculatePeriodRange now ''month'' = (now - 30 * (24 * Hour), now)
   \<and> leaderboard_calculatePeriodRange now ''year'' = (now - 365 * (24 * Hour), now)
   \<and> leaderboard_calculatePeriodRange now [] = (date_2000_01_01_UTC, now)
   \<and> (p \<notin> {''day'', ''week'', ''month'', ''year''} \<longrightarrow>
        leaderboard_calculatePeriodRange now p = (date_2000_01_01_UTC, now))"
  by (simp add: badges_calculatePeriodRange_def leaderboard_calculatePeriodRange_def)

theorem calculatePeriodRange_windows_witness:
  "''fortnight'' \<notin> {''day'', ''week'', ''month'', ''year''}
   \<and> leaderboard_calculatePeriodRange 1700000000000000000 ''fortnight''
       = (946684800000000000, 1700000000000000000)
   \<and> badges_calculatePeriodRange 1700000000000000000 ''fortnight''
       = (946684800000000000, 1700000000000000000)
   \<and> badges_calculatePeriodRange 1700000000000000000 ''day''
       = (1699913600000000000, 1700000000000000000)"
  using calculatePeriodRange_windows [of 1700000000000000000 "''fortnight''"]
        calculatePeriodRange_windows [of 1700000000000000000 "''day''"]
  by (simp add: date_2000_01_01_UTC_def Second_def Minute_def Hour_def)

section \<open>Results: time to first review and time to approval\<close>

lemma go_int_neg: "r < 0 \<Longrightarrow> go_int r \<le> 0"
proof -
  assume "r < 0"
  then have "\<lceil>r\<rceil> \<le> 0"
    by (simp add: ceiling_le_iff)
  then show ?thesis
    using \<open>r < 0\<close> by (simp add: go_int_def Let_def minInt_def)
qed

lemma go_int_of_int: "minInt \<le> k \<Longrightarrow> k \<le> maxInt \<Longrightarrow> go_int (of_int k) = k"
  by (simp add: go_int_def Let_def)

lemma go_int_1 [simp]: "go_int 1 = 1"
  using go_int_of_int [of 1] by (simp add: minInt_def maxInt_def)

lemma Time_Sub_neg: "e < t \<Longrightarrow> Time_Sub e t < 0"
  by (simp add: Time_Sub_def minDuration_def maxDuration_def Let_def)

lemma Time_Sub_exact: "t \<le> e \<Longrightarrow> e - t \<le> maxDuration \<Longrightarrow> Time_Sub e t = e - t"
  by (simp add: Time_Sub_def minDuration_def maxDuration_def Let_def)

lemma Duration_Seconds_neg: "d < 0 \<Longrightarrow> Duration_Seconds d < 0"
  by (simp add: Duration_Seconds_def Second_def divide_neg_pos)

lemma go_int_Seconds:
  "0 \<le> d \<Longrightarrow> d \<le> maxDuration \<Longrightarrow> go_int (Duration_Seconds d) = d div Second"
proof -
  assume d: "0 \<le> d" "d \<le> maxDuration"
  then have "(0::rat) \<le> of_int d / of_int Second"
    by (simp add: Second_def)
  moreover have "0 \<le> d div Second" "d div Second \<le> d"
    using d zdiv_mono2 [of d 1 Second] by (simp_all add: Second_def pos_imp_zdiv_nonneg_iff)
  then have "minInt \<le> d div Second \<and> d div Second \<le> maxInt"
    using d by (simp add: minInt_def maxInt_def maxDuration_def)
  ultimately show ?thesis
    by (simp add: go_int_def Duration_Seconds_def floor_divide_of_int_eq not_less Let_def)
qed

text \<open>
  C8.  \<open>CalculateTTFR\<close> and \<open>CalculateTimeToApproval\<close> return nil when the end
  timestamp is missing.  Otherwise they return a number of seconds that is never
  negative, and zero when the end lies before the start (clock skew).  Both are
  functions of their arguments and return a new value: no timestamp is written.  The
  seconds come from \<open>d.Seconds()\<close>, a floating-point number whose rounding the model
  leaves out; when the end does not precede the start and the difference fits a
  \<open>time.Duration\<close>, the result is the number of whole seconds elapsed or, where the
  rounding reaches the next whole second, one more.
\<close>

theorem CalculateTTFR_nil_or_nonneg:
  "CalculateTTFR t None = None
   \<and> CalculateTimeToApproval t None = None
   \<and> (\<exists>s. CalculateTTFR t (Some e) = Some s \<and> 0 \<le> s)
   \<and> (\<exists>s. CalculateTimeToApproval t (Some e) = Some s \<and> 0 \<le> s)
   \<and> (e < t \<longrightarrow> CalculateTTFR t (Some e) = Some 0
                \<and> CalculateTimeToApproval t (Some e) = Some 0)
   \<and> (t \<le> e \<and> e - t \<le> maxDuration \<longrightarrow>
         (\<exists>s. CalculateTTFR t (Some e) = Some s
              \<and> (e - t) div Second \<le> s \<and> s \<le> (e - t) div Second + 1)
         \<and> (\<exists>s. CalculateTimeToApproval t (Some e) = Some s
              \<and> (e - t) div Second \<le> s \<and> s \<le> (e - t) div Second + 1))"
proof -
  have nil: "CalculateTTFR t None = None" "CalculateTimeToApproval t None = None"
    by (simp_all add: CalculateTTFR_def CalculateTimeToApproval_def)
  have nn: "\<exists>s. CalculateTTFR t (Some e) = Some s \<and> 0 \<le> s"
           "\<exists>s. CalculateTimeToApproval t (Some e) = Some s \<and> 0 \<le> s"
    by (simp_all add: CalculateTTFR_def CalculateTimeToApproval_def Let_def)
  have skew: "CalculateTTFR t (Some e) = Some 0 \<and> CalculateTimeToApproval t (Some e) = Some 0"
    if "e < t"
  proof -
    have "go_int (Duration_Seconds (Time_Sub e t)) \<le> 0"
      using that by (intro go_int_neg Duration_Seconds_neg Time_Sub_neg)
    then show ?thesis
      by (auto simp add: CalculateTTFR_def CalculateTimeToApproval_def Let_def)
  qed
  have whole:
    "(\<exists>s. CalculateTTFR t (Some e) = Some s
          \<and> (e - t) div Second \<le> s \<and> s \<le> (e - t) div Second + 1)
     \<and> (\<exists>s. CalculateTimeToApproval t (Some e) = Some s
          \<and> (e - t) div Second \<le> s \<and> s \<le> (e - t) div Second + 1)"
    if "t \<le> e \<and> e - t \<le> maxDuration"
  proof -
    have "go_int (Duration_Seconds (Time_Sub e t)) = (e - t) div Second"
      using that by (simp add: Time_Sub_exact go_int_Seconds)
    moreover have "0 \<le> (e - t) div Second"
      using that by (simp add: Second_def pos_imp_zdiv_nonneg_iff)
    ultimately show ?thesis
      by (simp add: CalculateTTFR_def CalculateTimeToApproval_def Let_def)
  qed
  from nil nn skew whole show ?thesis by blast
qed

theorem CalculateTTFR_nil_or_nonneg_witness:
  "5 * Second < 9 * Second
   \<and> CalculateTTFR (9 * Second) (Some (5 * Second)) = Some 0
   \<and> CalculateTimeToApproval (9 * Second) (Some (5 * Second)) = Some 0
   \<and> 5 * Second \<le> 5 * Second + 3500000000
   \<and> (\<exists>s. CalculateTTFR (5 * Second) (Some (5 * Second + 3500000000)) = Some s
          \<and> 3 \<le> s \<and> s \<le> 4)"
  using CalculateTTFR_nil_or_nonneg [of "9 * Second" "5 * Second"]
        CalculateTTFR_nil_or_nonneg [of "5 * Second" "5 * Second + 3500000000"]
  by (simp add: Second_def maxDuration_def)

section \<open>Results: out-of-office windows\<close>

lemma IsUserOOO_inclusive:
  "IsUserOOO tbl now userID \<longleftrightarrow>
     (\<exists>w\<in>set tbl. ooo_UserID w = userID \<and> StartDate w \<le> now \<and> now \<le> EndDate w)"
  by (auto simp add: IsUserOOO_def Let_def filter_empty_conv)

lemma IsActive_exclusive:
  "IsActive now w \<longleftrightarrow> StartDate w < now \<and> now < EndDate w"
  by (simp add: IsActive_def Time_After_def Time_Before_def)

text \<open>
  C7.  At the first instant of a window (and at its last) the repository query
  \<open>IsUserOOO\<close> reports the user out of office, as the inclusive range asks, while
  \<open>IsActive\<close> of the same window is false: \<open>After\<close> and \<open>Before\<close> are strict.  Here the
  window of user 7 runs from instant 100 to instant 200.
\<close>

theorem IsActive_misses_endpoints:
  "IsUserOOO [\<lparr>ooo_ID = 1, ooo_UserID = 7, StartDate = 100, EndDate = 200, Reason = []\<rparr>] 100 7
   \<and> \<not> IsActive 100 \<lparr>ooo_ID = 1, ooo_UserID = 7, StartDate = 100, EndDate = 200, Reason = []\<rparr>
   \<and> IsUserOOO [\<lparr>ooo_ID = 1, ooo_UserID = 7, StartDate = 100, EndDate = 200, Reason = []\<rparr>] 200 7
   \<and> \<not> IsActive 200 \<lparr>ooo_ID = 1, ooo_UserID = 7, StartDate = 100, EndDate = 200, Reason = []\<rparr>"
  by (simp add: IsUserOOO_def IsActive_def Time_After_def Time_Before_def)

section \<open>Results: the daily aggregator on one review\<close>

lemmas scenario_defs =
  scenario_db_def scenario_review_def scenario_assignment1_def scenario_assignment2_def

lemma distinct_singleton_set:
  assumes "distinct xs" and "set xs = {x}"
  shows "xs = [x]"
proof (cases xs)
  case Nil
  with assms show ?thesis by simp
next
  case (Cons y ys)
  with assms have y: "y = x" by auto
  have "ys = []"
  proof (cases ys)
    case Nil
    then show ?thesis .
  next
    case (Cons z zs)
    with \<open>xs = y # ys\<close> assms have "z = x" and "z \<noteq> y" by auto
    with y show ?thesis by simp
  qed
  with y Cons show ?thesis by simp
qed

lemma GetAssignments_review_metrics [simp]:
  "GetAssignmentsByMRReviewID (db\<lparr>review_metrics := x\<rparr>) i = GetAssignmentsByMRReviewID db i"
  by (simp add: GetAssignmentsByMRReviewID_def)

lemma CreateOrUpdate_new:
  "\<forall>r\<in>set rows. \<not> matches_key m r \<Longrightarrow> rm_CreatedAt m = zero_Time \<Longrightarrow>
   CreateOrUpdate clock m rows
   = rows @ [m\<lparr>rm_ID := next_id rows, rm_CreatedAt := clock (next_id rows)\<rparr>]"
proof -
  assume "\<forall>r\<in>set rows. \<not> matches_key m r" and "rm_CreatedAt m = zero_Time"
  moreover from this have "find (matches_key m) rows = None"
    by (simp add: find_None_iff)
  ultimately show ?thesis
    by (simp add: CreateOrUpdate_def Create_def Let_def)
qed

lemma user_metric_key:
  "rm_UserID (user_metric d r a) = Some (ra_UserID a)"
  "ProjectID (user_metric d r a) = Some (GitLabProjectID r)"
  "Date (user_metric d r a) = d"
  "rm_Team (user_metric d r a) = mr_Team r"
  "rm_CreatedAt (user_metric d r a) = zero_Time"
  by (simp_all add: user_metric_def Let_def)

lemma team_metric_key:
  "rm_UserID (team_metric db d t rs) = None"
  "ProjectID (team_metric db d t rs) = None"
  "Date (team_metric db d t rs) = d"
  "rm_Team (team_metric db d t rs) = t"
  "rm_CreatedAt (team_metric db d t rs) = zero_Time"
  by (simp_all add: team_metric_def Let_def)

text \<open>
  C1, as the code has it.  When the store holds exactly one completed review for the
  day, with status merged and exactly two assignments (of different users) whose comment
  counts are 5 and 3 and whose comment lengths are 500 and 300, running the aggregator
  on an empty metrics table leaves exactly three rows: one team-level row (no user, no
  project) with \<open>avg_comment_count = 8\<close>, \<open>avg_comment_length = 800\<close> and
  \<open>completed_reviews = 1\<close>, and two user-level rows, one for each assignee.  The team
  averages divide the comments of all assignments by the number of reviews, which is 1.
\<close>

theorem AggregateDaily_one_review:
  assumes one: "GetCompletedReviewsByDateRange db (startOfDay date) (startOfDay date + 24 * Hour) = [r]"
    and merged: "Status r = MRStatusMerged"
    and two: "GetAssignmentsByMRReviewID db (mr_ID r) = [a1, a2]"
    and counts: "CommentCount a1 = 5" "CommentCount a2 = 3"
    and lengths: "CommentLength a1 = 500" "CommentLength a2 = 300"
    and assignees: "ra_UserID a1 \<noteq> ra_UserID a2"
    and empty: "review_metrics db = []"
    and ord: "team_order [r] order"
  shows "\<exists>t u1 u2. review_metrics (AggregateDaily order clock date db) = [t, u1, u2]
      \<and> rm_UserID t = None \<and> ProjectID t = None
      \<and> AvgCommentCount t = Some 8 \<and> AvgCommentLength t = Some 800
      \<and> CompletedReviews t = 1
      \<and> rm_UserID u1 = Some (ra_UserID a1) \<and> rm_UserID u2 = Some (ra_UserID a2)"
proof -
  define start where "start = startOfDay date"
  define T where "T = team_metric db start (mr_Team r) [r]"
  define U1 where "U1 = user_metric start r a1"
  define U2 where "U2 = user_metric start r a2"
  have order: "order = [mr_Team r]"
    using ord by (simp add: team_order_def distinct_singleton_set)
  have tot: "totalCommentCount (fold (team_review_step db) [r] zero_totals) = 8"
      "totalCommentLength (fold (team_review_step db) [r] zero_totals) = 800"
      "completedCount (fold (team_review_step db) [r] zero_totals) = 1"
    using merged two counts lengths
    by (simp_all add: team_review_step_def add_comments_def zero_totals_def Let_def
        split: option.splits prod.splits)
  have T: "AvgCommentCount T = Some 8" "AvgCommentLength T = Some 800" "CompletedReviews T = 1"
    using tot by (simp_all add: T_def team_metric_def Let_def)
  have Tk: "rm_UserID T = None" "ProjectID T = None"
    by (simp_all add: T_def team_metric_key)
  define t where "t = T\<lparr>rm_ID := next_id [], rm_CreatedAt := clock (next_id [])\<rparr>"
  define u1 where "u1 = U1\<lparr>rm_ID := next_id [t], rm_CreatedAt := clock (next_id [t])\<rparr>"
  define u2 where "u2 = U2\<lparr>rm_ID := next_id [t, u1], rm_CreatedAt := clock (next_id [t, u1])\<rparr>"
  have s1: "CreateOrUpdate clock T [] = [t]"
    by (simp add: CreateOrUpdate_new t_def T_def team_metric_key)
  have s2: "CreateOrUpdate clock U1 [t] = [t, u1]"
    by (simp add: CreateOrUpdate_new u1_def matches_key_def t_def Tk U1_def user_metric_key)
  have s3: "CreateOrUpdate clock U2 [t, u1] = [t, u1, u2]"
    using assignees
    by (simp add: CreateOrUpdate_new u2_def u1_def matches_key_def t_def Tk U1_def U2_def
        user_metric_key)
  have "review_metrics (AggregateDaily order clock date db) = [t, u1, u2]"
    using one two empty s1 s2 s3
    by (simp add: AggregateDaily_def order Let_def teamReviews_def aggregateTeamMetrics_def
        aggregator_aggregateUserMetrics_def flip: start_def T_def U1_def U2_def)
  moreover have "rm_UserID t = None" "ProjectID t = None" "AvgCommentCount t = Some 8"
     "AvgCommentLength t = Some 800" "CompletedReviews t = 1"
    by (simp_all add: t_def T Tk)
  moreover have "rm_UserID u1 = Some (ra_UserID a1)" "rm_UserID u2 = Some (ra_UserID a2)"
    by (simp_all add: u1_def u2_def U1_def U2_def user_metric_key)
  ultimately show ?thesis by blast
qed

theorem AggregateDaily_one_review_witness:
  "\<exists>t u1 u2. review_metrics (AggregateDaily [''frontend''] scenario_clock 1736899200000000000
                                   scenario_db)
                = [t, u1, u2]
      \<and> rm_UserID t = None \<and> ProjectID t = None
      \<and> AvgCommentCount t = Some 8 \<and> AvgCommentLength t = Some 800
      \<and> CompletedReviews t = 1
      \<and> rm_UserID u1 = Some 1 \<and> rm_UserID u2 = Some 2"
  using AggregateDaily_one_review [of scenario_db 1736899200000000000 scenario_review
          scenario_assignment1 scenario_assignment2 "[''frontend'']" scenario_clock]
  by (simp add: scenario_defs GetCompletedReviewsByDateRange_def GetAssignmentsByMRReviewID_def
      startOfDay_def Hour_def Minute_def Second_def between_opt_def between_def
      MRStatusMerged_def MRStatusClosed_def team_order_def)

text \<open>
  C1, as stated, fails on the scenario: no team-level row with \<open>avg_comment_count = 4\<close>
  and \<open>avg_comment_length = 400\<close> is written.
\<close>

theorem AggregateDaily_one_review_counterexample:
  "\<not> (\<exists>t \<in> set (review_metrics (AggregateDaily [''frontend''] scenario_clock
                                       1736899200000000000 scenario_db)).
         rm_UserID t = None \<and> AvgCommentCount t = Some 4 \<and> AvgCommentLength t = Some 400)"
  by (simp add: AggregateDaily_def startOfDay_def Hour_def Minute_def Second_def scenario_defs
      GetCompletedReviewsByDateRange_def between_opt_def between_def
      MRStatusMerged_def MRStatusClosed_def teamReviews_def aggregateTeamMetrics_def
      team_metric_def team_review_step_def GetAssignmentsByMRReviewID_def add_comments_def
      zero_totals_def CreateOrUpdate_def Create_def next_id_def matches_key_def
      aggregator_aggregateUserMetrics_def user_metric_def CalculateEngagementScore_def
      Time_Unix_def Let_def)

section \<open>Results: the reference sort and the scenarios\<close>

lemma insert_by_mset: "mset (insert_by lt x ys) = add_mset x (mset ys)"
  by (induction ys) simp_all

lemma insert_by_set: "set (insert_by lt x ys) = insert x (set ys)"
  by (induction ys) auto

lemma insert_by_sorted:
  assumes asym: "\<And>a b. lt a b \<Longrightarrow> \<not> lt b a"
    and trans: "\<And>a b c. lt a b \<Longrightarrow> lt b c \<Longrightarrow> lt a c"
  shows "sorted_wrt (\<lambda>a b. \<not> lt b a) ys \<Longrightarrow> sorted_wrt (\<lambda>a b. \<not> lt b a) (insert_by lt x ys)"
proof (induction ys)
  case Nil
  then show ?case by simp
next
  case (Cons y ys)
  show ?case
  proof (cases "lt x y")
    case True
    have "\<not> lt z x" if "z \<in> set (y # ys)" for z
    proof
      assume "lt z x"
      then have "lt z y" using True trans by blast
      moreover have "z = y \<or> \<not> lt z y" using that Cons.prems by auto
      ultimately show False using asym by blast
    qed
    then show ?thesis using True Cons.prems by simp
  next
    case False
    then show ?thesis using Cons by (auto simp add: insert_by_set)
  qed
qed

lemma insertion_sort_ok:
  assumes asym: "\<And>a b. lt a b \<Longrightarrow> \<not> lt b a"
    and trans: "\<And>a b c. lt a b \<Longrightarrow> lt b c \<Longrightarrow> lt a c"
  shows "sort_Slice_ok insertion_sort lt"
proof -
  have "mset (insertion_sort lt xs) = mset xs" for xs
    unfolding insertion_sort_def by (induction xs) (simp_all add: insert_by_mset)
  moreover have "sorted_wrt (\<lambda>a b. \<not> lt b a) (insertion_sort lt xs)" for xs
    unfolding insertion_sort_def
    by (induction xs) (simp_all add: insert_by_sorted [OF asym trans])
  ultimately show ?thesis by (simp add: sort_Slice_ok_def)
qed

lemma insertion_sort_userRank: "sort_Slice_ok insertion_sort userRank_less"
  by (rule insertion_sort_ok) (auto simp add: userRank_less_def)

lemma insertion_sort_leaderboard: "sort_Slice_ok insertion_sort (leaderboard_less metric)"
  by (rule insertion_sort_ok) (simp_all add: leaderboard_less_def split: if_splits)

lemma sort_Slice_ok_Nil: "sort_Slice_ok srt lt \<Longrightarrow> srt lt [] = []"
  by (metis mset_zero_iff sort_Slice_ok_def)

lemma ranking_db_tables:
  "users ranking_db = [alice, bob]" "badges ranking_db = [speed_demon]"
  "user_badges ranking_db = []" "u_ID alice = 11" "u_ID bob = 12" "b_ID speed_demon = 3"
  by (simp_all add: ranking_db_def alice_def bob_def speed_demon_def)

lemma ranking_period [simp]:
  "badges_calculatePeriodRange now ''all_time'' = (date_2000_01_01_UTC, now)"
  "leaderboard_calculatePeriodRange now ''all_time'' = (date_2000_01_01_UTC, now)"
  "badges_calculatePeriodRange now [] = (date_2000_01_01_UTC, now)"
  by (simp_all add: badges_calculatePeriodRange_def leaderboard_calculatePeriodRange_def)

lemma ranking_rows_alice:
  "review_metrics db = review_metrics ranking_db \<Longrightarrow>
   GetMetricsByUser db 11 date_2000_01_01_UTC ranking_now
   = [metrics_row 1 1736899200000000000 11 5 60 2 10, metrics_row 2 1736985600000000000 11 5 60 2 10]"
  by (simp add: GetMetricsByUser_def ranking_db_def metrics_row_def between_def
      date_2000_01_01_UTC_def Second_def ranking_now_def)

lemma ranking_rows_bob:
  "review_metrics db = review_metrics ranking_db \<Longrightarrow>
   GetMetricsByUser db 12 date_2000_01_01_UTC ranking_now
   = [metrics_row 3 1736899200000000000 12 8 120 3 15]"
  by (simp add: GetMetricsByUser_def ranking_db_def metrics_row_def between_def
      date_2000_01_01_UTC_def Second_def ranking_now_def)

lemma ranking_rows_all:
  "GetByDateRange ranking_db date_2000_01_01_UTC ranking_now no_filters = review_metrics ranking_db"
  by (simp add: GetByDateRange_def ranking_db_def metrics_row_def between_def no_filters_def
      date_2000_01_01_UTC_def Second_def ranking_now_def)

lemma ttfr_alice:
  "review_metrics db = review_metrics ranking_db \<Longrightarrow>
   badges_aggregateUserMetrics db 11 date_2000_01_01_UTC ranking_now ''avg_ttfr'' = Some 60"
  by (simp add: badges_aggregateUserMetrics_def ranking_rows_alice sum_opt_int_def metrics_row_def
      Let_def)

lemma ttfr_bob:
  "review_metrics db = review_metrics ranking_db \<Longrightarrow>
   badges_aggregateUserMetrics db 12 date_2000_01_01_UTC ranking_now ''avg_ttfr'' = Some 120"
  by (simp add: badges_aggregateUserMetrics_def ranking_rows_bob sum_opt_int_def metrics_row_def
      Let_def)

lemma speed_demon_alice:
  "review_metrics db = review_metrics ranking_db \<Longrightarrow>
   EvaluateBadge insertion_sort ranking_now ranking_now db speed_demon 11 = Inr True"
  by (simp add: EvaluateBadge_def speed_demon_def checkCriteria_def ttfr_alice
      evaluateMetricCriteria_def)

lemma speed_demon_bob:
  "review_metrics db = review_metrics ranking_db \<Longrightarrow>
   EvaluateBadge insertion_sort ranking_now ranking_now db speed_demon 12 = Inr False"
  by (simp add: EvaluateBadge_def speed_demon_def checkCriteria_def ttfr_bob
      evaluateMetricCriteria_def)

lemma two_runs:
  "user_badges (EvaluateAllBadges_runs [badge_run, badge_run] ranking_db)
   = [\<lparr>ub_ID = 1, ub_UserID = 11, BadgeID = 3, EarnedAt = ranking_now\<rparr>]"
  by (simp add: EvaluateAllBadges_runs_def badge_run_def EvaluateAllBadges_def evaluate_pair_def
      HasUserEarnedBadge_def AwardBadge_def repo_AwardBadge_def next_user_badge_id_def
      ranking_db_tables speed_demon_alice speed_demon_bob Let_def)

lemma completed_alice:
  "badges_aggregateUserMetrics ranking_db 11 date_2000_01_01_UTC ranking_now ''completed_reviews''
     = Some 10"
  "badges_aggregateUserMetrics ranking_db 11 date_2000_01_01_UTC ranking_now ''external_reviews''
     = Some 10"
  "badges_aggregateUserMetrics ranking_db 11 date_2000_01_01_UTC ranking_now ''engagement_score''
     = Some 10"
  by (simp_all add: badges_aggregateUserMetrics_def ranking_rows_alice sum_opt_rat_def
      metrics_row_def Let_def)

lemma ranking_sums:
  "badges_aggregateMetricsByUser (review_metrics ranking_db) ''completed_reviews''
     = Inr [(11, 10), (12, 8)]"
  "badges_aggregateMetricsByUser (review_metrics ranking_db) ''engagement_score''
     = Inr [(11, 20), (12, 15)]"
  "badges_aggregateMetricsByUser (review_metrics ranking_db) ''external_reviews''
     = Inl (TopRankingNotSupported ''external_reviews'')"
  by (simp_all add: badges_aggregateMetricsByUser_def ranking_db_def metrics_row_def
      getMetricValue_def)

lemma ranking_top:
  "checkCriteria insertion_sort ranking_now ranking_now ranking_db
     (top_criteria ''completed_reviews'' 1) 11 = Inr True"
  "checkCriteria insertion_sort ranking_now ranking_now ranking_db
     (top_criteria ''engagement_score'' 1) 11 = Inr True"
  "checkCriteria insertion_sort ranking_now ranking_now ranking_db
     (top_criteria ''external_reviews'' 1) 11 = Inl (TopRankingNotSupported ''external_reviews'')"
  by (simp_all add: checkCriteria_def top_criteria_def completed_alice evaluateTopRanking_def
      ranking_rows_all ranking_sums sortUserRankings_def insertion_sort_def userRank_less_def)

lemma ranking_ge:
  "checkCriteria srt ranking_now now' ranking_db (ge_criteria ''completed_reviews'' 10) 11 = Inr True"
  by (simp add: checkCriteria_def ge_criteria_def completed_alice evaluateMetricCriteria_def)

section \<open>Results: the external reviews metric\<close>

lemma external_eq_completed:
  "badges_aggregateUserMetrics db u s e ''external_reviews''
   = badges_aggregateUserMetrics db u s e ''completed_reviews''"
  by (simp add: badges_aggregateUserMetrics_def Let_def)

lemma external_value:
  "GetMetricsByUser db u s e \<noteq> [] \<Longrightarrow>
   badges_aggregateUserMetrics db u s e ''external_reviews''
   = Some (of_int (sum_list (map CompletedReviews (GetMetricsByUser db u s e))))"
  by (simp add: badges_aggregateUserMetrics_def Let_def)

lemma loop_unsupported:
  assumes "metric \<notin> {''completed_reviews'', ''engagement_score'', ''avg_ttfr'', ''avg_comment_count''}"
  shows "badges_aggregateMetricsByUser_loop metric ms acc = Inr acc
         \<or> badges_aggregateMetricsByUser_loop metric ms acc = Inl (TopRankingNotSupported metric)"
  using assms
  by (induction ms) (auto simp add: getMetricValue_def split: option.splits)

lemma top_external_never_true:
  assumes "sort_Slice_ok srt userRank_less"
  shows "evaluateTopRanking srt db now ''external_reviews'' n p u \<noteq> Inr True"
proof -
  have "badges_aggregateMetricsByUser ms ''external_reviews'' = Inr []
        \<or> badges_aggregateMetricsByUser ms ''external_reviews''
            = Inl (TopRankingNotSupported ''external_reviews'')" for ms
    unfolding badges_aggregateMetricsByUser_def by (rule loop_unsupported) simp
  then have "badges_aggregateMetricsByUser
                (GetByDateRange db (fst (badges_calculatePeriodRange now p))
                   (snd (badges_calculatePeriodRange now p)) no_filters) ''external_reviews'' = Inr []
        \<or> badges_aggregateMetricsByUser
                (GetByDateRange db (fst (badges_calculatePeriodRange now p))
                   (snd (badges_calculatePeriodRange now p)) no_filters) ''external_reviews''
            = Inl (TopRankingNotSupported ''external_reviews'')"
    by blast
  then show ?thesis
    using sort_Slice_ok_Nil [OF assms]
    by (auto simp add: evaluateTopRanking_def sortUserRankings_def Let_def split_beta)
qed

text \<open>
  C9, as the code has it.  The badge evaluator's \<open>aggregateUserMetrics\<close> reports
  \<open>external_reviews\<close> exactly as it reports \<open>completed_reviews\<close>: absent when the user
  has no row in the window, the sum of the completed reviews of the user's rows
  otherwise.  A criterion with a comparison operator therefore evaluates on
  \<open>external_reviews\<close> exactly as on \<open>completed_reviews\<close>.  A criterion with the operator
  \<open>top\<close> does not: the ranking rejects the metric \<open>external_reviews\<close>, and the criterion
  is never satisfied.
\<close>

theorem external_reviews_placeholder:
  "badges_aggregateUserMetrics db u s e ''external_reviews''
     = badges_aggregateUserMetrics db u s e ''completed_reviews''
   \<and> (GetMetricsByUser db u s e \<noteq> [] \<longrightarrow>
        badges_aggregateUserMetrics db u s e ''external_reviews''
        = Some (of_int (sum_list (map CompletedReviews (GetMetricsByUser db u s e)))))
   \<and> (Operator c \<noteq> ''top'' \<longrightarrow>
        checkCriteria srt now now' db (c\<lparr>Metric := ''external_reviews''\<rparr>) u
        = checkCriteria srt now now' db (c\<lparr>Metric := ''completed_reviews''\<rparr>) u)
   \<and> (Operator c = ''top'' \<and> sort_Slice_ok srt userRank_less \<longrightarrow>
        checkCriteria srt now now' db (c\<lparr>Metric := ''external_reviews''\<rparr>) u \<noteq> Inr True)"
proof -
  have cmp: "checkCriteria srt now now' db (c\<lparr>Metric := ''external_reviews''\<rparr>) u
        = checkCriteria srt now now' db (c\<lparr>Metric := ''completed_reviews''\<rparr>) u"
    if "Operator c \<noteq> ''top''"
    using that
    by (simp add: checkCriteria_def external_eq_completed Let_def
        split: prod.splits option.splits json_value.splits)
  have top: "checkCriteria srt now now' db (c\<lparr>Metric := ''external_reviews''\<rparr>) u \<noteq> Inr True"
    if "Operator c = ''top'' \<and> sort_Slice_ok srt userRank_less"
    using that top_external_never_true [of srt]
    by (simp add: checkCriteria_def Let_def split: prod.splits option.splits json_value.splits)
  show ?thesis
    using external_eq_completed external_value cmp top by blast
qed

theorem external_reviews_placeholder_witness:
  "GetMetricsByUser ranking_db 11 date_2000_01_01_UTC ranking_now \<noteq> []
   \<and> badges_aggregateUserMetrics ranking_db 11 date_2000_01_01_UTC ranking_now ''external_reviews''
       = Some 10
   \<and> Operator (ge_criteria ''external_reviews'' 10) \<noteq> ''top''
   \<and> checkCriteria insertion_sort ranking_now ranking_now ranking_db
        (ge_criteria ''external_reviews'' 10) 11 = Inr True
   \<and> Operator (top_criteria ''external_reviews'' 1) = ''top''
   \<and> sort_Slice_ok insertion_sort userRank_less
   \<and> checkCriteria insertion_sort ranking_now ranking_now ranking_db
        (top_criteria ''external_reviews'' 1) 11 \<noteq> Inr True"
  using external_reviews_placeholder [of ranking_db 11 date_2000_01_01_UTC ranking_now
          "ge_criteria ''external_reviews'' 10" insertion_sort ranking_now ranking_now]
        external_reviews_placeholder [of ranking_db 11 date_2000_01_01_UTC ranking_now
          "top_criteria ''external_reviews'' 1" insertion_sort ranking_now ranking_now]
        insertion_sort_userRank ranking_ge [of insertion_sort ranking_now]
  by (simp add: ranking_rows_alice ge_criteria_def top_criteria_def completed_alice)

text \<open>
  C9, as stated, fails for the operator \<open>top\<close>: in the ranking scenario alice is in the
  top 1 by \<open>completed_reviews\<close>, while the same criterion on \<open>external_reviews\<close> ends
  in the error of the unsupported metric.
\<close>

theorem external_reviews_placeholder_counterexample:
  "checkCriteria insertion_sort ranking_now ranking_now ranking_db
     (top_criteria ''completed_reviews'' 1) 11 = Inr True
   \<and> checkCriteria insertion_sort ranking_now ranking_now ranking_db
       (top_criteria ''external_reviews'' 1) 11 = Inl (TopRankingNotSupported ''external_reviews'')"
  by (simp add: ranking_top)

section \<open>Results: badges are awarded at most once\<close>

lemma repo_AwardBadge_existing:
  "HasUserEarnedBadge db u b \<Longrightarrow> repo_AwardBadge now u b db = (None, db)"
  by (simp add: repo_AwardBadge_def Let_def)

lemma repo_AwardBadge_count:
  "count_user_badge (snd (repo_AwardBadge now u b db)) u' b'
   = (if u' = u \<and> b' = b \<and> count_user_badge db u b = 0 then 1 else count_user_badge db u' b')"
  by (auto simp add: repo_AwardBadge_def HasUserEarnedBadge_def count_user_badge_def Let_def)

lemma repo_AwardBadge_unique:
  "badge_unique db \<Longrightarrow> badge_unique (snd (repo_AwardBadge now u b db))"
  by (simp add: badge_unique_def repo_AwardBadge_count)

lemma evaluate_pair_unique:
  "badge_unique (fst st) \<Longrightarrow> badge_unique (fst (evaluate_pair ev clock badge user st))"
  using repo_AwardBadge_unique [of "fst st" "clock (u_ID user) (b_ID badge)" "u_ID user" "b_ID badge"]
  by (auto simp add: evaluate_pair_def AwardBadge_def Let_def
      split: prod.splits sum.splits option.splits)

lemma fold_users_unique:
  "badge_unique (fst st) \<Longrightarrow> badge_unique (fst (fold (evaluate_pair ev clock badge) us st))"
  by (induction us arbitrary: st) (simp_all add: evaluate_pair_unique)

lemma fold_badges_unique:
  "badge_unique (fst st) \<Longrightarrow>
   badge_unique (fst (fold (\<lambda>badge. fold (evaluate_pair ev clock badge) us) bs st))"
  by (induction bs arbitrary: st) (simp_all add: fold_users_unique)

lemma EvaluateAllBadges_unique:
  "badge_unique db \<Longrightarrow> badge_unique (fst (EvaluateAllBadges ev clock db))"
  by (simp add: EvaluateAllBadges_def Let_def fold_badges_unique)

lemma EvaluateAllBadges_runs_unique:
  "badge_unique db \<Longrightarrow> badge_unique (EvaluateAllBadges_runs runs db)"
  unfolding EvaluateAllBadges_runs_def
  by (induction runs arbitrary: db) (simp_all add: EvaluateAllBadges_unique split_beta)

text \<open>
  C3.  From a store in which no (user, badge) pair has more than one \<open>UserBadge\<close> row
  (the empty table, for one), any number of invocations of \<open>EvaluateAllBadges\<close> in
  sequence, whatever the evaluations return and whatever the clock reads, leaves for
  every user and badge 0 or 1 row.  \<open>AwardBadge\<close>, of the repository and of the service,
  called for a pair that is already awarded, returns a nil error and leaves the store as
  it is.
\<close>

theorem user_badge_at_most_once:
  assumes "\<forall>u b. count_user_badge db u b \<le> 1"
  shows "count_user_badge (EvaluateAllBadges_runs runs db) userID badgeID \<in> {0, 1}
       \<and> (HasUserEarnedBadge db' userID (b_ID badge) \<longrightarrow>
            repo_AwardBadge now userID (b_ID badge) db' = (None, db')
            \<and> AwardBadge now userID badge db' = (None, db'))"
proof -
  have "badge_unique db"
    using assms by (simp add: badge_unique_def)
  then have "badge_unique (EvaluateAllBadges_runs runs db)"
    by (rule EvaluateAllBadges_runs_unique)
  then have "count_user_badge (EvaluateAllBadges_runs runs db) userID badgeID \<le> 1"
    by (simp add: badge_unique_def)
  then have "count_user_badge (EvaluateAllBadges_runs runs db) userID badgeID \<in> {0, 1}"
    by auto
  then show ?thesis
    by (simp add: repo_AwardBadge_existing AwardBadge_def)
qed

theorem user_badge_at_most_once_witness:
  "(\<forall>u b. count_user_badge ranking_db u b \<le> 1)
   \<and> count_user_badge (EvaluateAllBadges_runs [badge_run, badge_run] ranking_db) 11 3 = 1
   \<and> HasUserEarnedBadge (EvaluateAllBadges_runs [badge_run] ranking_db) 11 (b_ID speed_demon)
   \<and> AwardBadge ranking_now 11 speed_demon (EvaluateAllBadges_runs [badge_run] ranking_db)
       = (None, EvaluateAllBadges_runs [badge_run] ranking_db)"
proof -
  have one_run: "user_badges (EvaluateAllBadges_runs [badge_run] ranking_db)
      = [\<lparr>ub_ID = 1, ub_UserID = 11, BadgeID = 3, EarnedAt = ranking_now\<rparr>]"
    by (simp add: EvaluateAllBadges_runs_def badge_run_def EvaluateAllBadges_def evaluate_pair_def
        HasUserEarnedBadge_def AwardBadge_def repo_AwardBadge_def next_user_badge_id_def
        ranking_db_tables speed_demon_alice speed_demon_bob Let_def)
  have start: "\<forall>u b. count_user_badge ranking_db u b \<le> 1"
    by (simp add: count_user_badge_def ranking_db_tables)
  have earned: "HasUserEarnedBadge (EvaluateAllBadges_runs [badge_run] ranking_db) 11 (b_ID speed_demon)"
    by (simp add: HasUserEarnedBadge_def one_run ranking_db_tables)
  show ?thesis
    using user_badge_at_most_once [OF start, of "[badge_run, badge_run]" 11 3
            "EvaluateAllBadges_runs [badge_run] ranking_db" speed_demon ranking_now]
          start earned two_runs
    by (simp add: count_user_badge_def)
qed

section \<open>Results: the leaderboard\<close>

lemma sorted_better_le:
  assumes sorted: "sorted_wrt (\<lambda>a b. \<not> lt b a) ys"
    and irrefl: "\<And>a. \<not> lt a a"
    and i: "i < length ys"
  shows "length (filter (\<lambda>y. lt y (ys ! i)) ys) \<le> i"
proof -
  have "\<not> lt y (ys ! i)" if "y \<in> set (drop i ys)" for y
  proof -
    from that obtain k where k: "k < length ys - i" "y = ys ! (i + k)"
      by (auto simp add: in_set_conv_nth)
    show ?thesis
    proof (cases "k = 0")
      case True
      with k irrefl show ?thesis by simp
    next
      case False
      with k sorted show ?thesis
        by (simp add: sorted_wrt_iff_nth_less)
    qed
  qed
  then have "filter (\<lambda>y. lt y (ys ! i)) (drop i ys) = []"
    by (simp add: filter_empty_conv)
  then have "filter (\<lambda>y. lt y (ys ! i)) ys = filter (\<lambda>y. lt y (ys ! i)) (take i ys)"
    by (metis append_Nil2 append_take_drop_id filter_append)
  moreover have "length (filter (\<lambda>y. lt y (ys ! i)) (take i ys)) \<le> length (take i ys)"
    by (rule length_filter_le)
  ultimately show ?thesis using i by simp
qed

lemma sorted_not_worse_gt:
  assumes sorted: "sorted_wrt (\<lambda>a b. \<not> lt b a) ys"
    and irrefl: "\<And>a. \<not> lt a a"
    and i: "i < length ys"
  shows "i < length (filter (\<lambda>y. \<not> lt (ys ! i) y) ys)"
proof -
  have "\<not> lt (ys ! i) y" if "y \<in> set (take (Suc i) ys)" for y
  proof -
    from that i obtain k where k: "k < Suc i" "y = ys ! k"
      by (auto simp add: in_set_conv_nth)
    show ?thesis
    proof (cases "k = i")
      case True
      with k irrefl show ?thesis by simp
    next
      case False
      with k i sorted show ?thesis
        by (simp add: sorted_wrt_iff_nth_less)
    qed
  qed
  then have "filter (\<lambda>y. \<not> lt (ys ! i) y) (take (Suc i) ys) = take (Suc i) ys"
    by (simp add: filter_id_conv)
  then have "length (take (Suc i) ys) \<le> length (filter (\<lambda>y. \<not> lt (ys ! i) y) ys)"
    by (metis append_take_drop_id filter_append length_append le_add1)
  with i show ?thesis by simp
qed

lemma leaderboard_less_irrefl: "\<not> leaderboard_less metric a a"
  by (simp add: leaderboard_less_def)

lemma leaderboard_less_asym: "leaderboard_less metric a b \<Longrightarrow> \<not> leaderboard_less metric b a"
  by (simp add: leaderboard_less_def split: if_splits)

lemma leaderboard_less_Rank [simp]:
  "leaderboard_less metric (a\<lparr>Rank := r\<rparr>) b = leaderboard_less metric a b"
  "leaderboard_less metric a (b\<lparr>Rank := r\<rparr>) = leaderboard_less metric a b"
  by (simp_all add: leaderboard_less_def)

lemma assign_ranks_length [simp]: "length (assign_ranks es) = length es"
  by (simp add: assign_ranks_def)

lemma assign_ranks_nth:
  "i < length es \<Longrightarrow> assign_ranks es ! i = (es ! i)\<lparr>Rank := int i + 1\<rparr>"
  by (simp add: assign_ranks_def nth_enumerate_eq)

lemma assign_ranks_ranks: "map Rank (assign_ranks es) = map int [1..<Suc (length es)]"
  by (rule nth_equalityI) (simp_all add: assign_ranks_nth nth_upt del: upt_Suc)

lemma assign_ranks_sorted:
  "sorted_wrt (\<lambda>a b. \<not> leaderboard_less metric b a) es \<Longrightarrow>
   sorted_wrt (\<lambda>a b. \<not> leaderboard_less metric b a) (assign_ranks es)"
  by (simp add: sorted_wrt_iff_nth_less assign_ranks_nth)

lemma better_plus_tied:
  "strictly_better metric es e + tied metric es e
   = length (filter (\<lambda>e'. \<not> leaderboard_less metric e e') es)"
proof -
  have "length (filter (\<lambda>e'. \<not> leaderboard_less metric e e') es)
        = length (filter (\<lambda>e'. leaderboard_less metric e' e) (filter (\<lambda>e'. \<not> leaderboard_less metric e e') es))
          + length (filter (\<lambda>e'. \<not> leaderboard_less metric e' e) (filter (\<lambda>e'. \<not> leaderboard_less metric e e') es))"
    by (rule sum_length_filter_compl [symmetric])
  moreover have "(\<lambda>e'. \<not> leaderboard_less metric e e' \<and> leaderboard_less metric e' e)
                 = (\<lambda>e'. leaderboard_less metric e' e)"
    using leaderboard_less_asym by blast
  ultimately show ?thesis
    by (simp add: strictly_better_def tied_def conj_commute)
qed

lemma getLeaderboard_eq:
  "getLeaderboard srt db now team period metric limit =
     (let ranked = assign_ranks (srt (leaderboard_less metric) (leaderboard_entries db now team period))
      in if 0 < limit \<and> limit < int (length ranked) then take (nat limit) ranked else ranked)"
  by (simp add: getLeaderboard_def leaderboard_entries_def sortLeaderboard_def Let_def split_beta)

lemma getLeaderboard_full:
  "getLeaderboard srt db now team period metric 0 =
     assign_ranks (srt (leaderboard_less metric) (leaderboard_entries db now team period))"
  by (simp add: getLeaderboard_eq)

lemma getLeaderboard_limit:
  "getLeaderboard srt db now team period metric limit =
     (if 0 < limit then take (nat limit) (getLeaderboard srt db now team period metric 0)
      else getLeaderboard srt db now team period metric 0)"
  by (simp add: getLeaderboard_eq Let_def)

lemma full_sorted:
  assumes "sort_Slice_ok srt (leaderboard_less metric)"
  shows "sorted_wrt (\<lambda>a b. \<not> leaderboard_less metric b a)
           (getLeaderboard srt db now team period metric 0)"
  using assms by (simp add: getLeaderboard_full assign_ranks_sorted sort_Slice_ok_def)

lemma limited_sorted:
  assumes "sort_Slice_ok srt (leaderboard_less metric)"
  shows "sorted_wrt (\<lambda>a b. \<not> leaderboard_less metric b a)
           (getLeaderboard srt db now team period metric limit)"
  using full_sorted [OF assms, of db now team period]
  by (subst getLeaderboard_limit) (simp add: sorted_wrt_take)

lemma full_ranks:
  "map Rank (getLeaderboard srt db now team period metric 0)
   = map int [1..<Suc (length (getLeaderboard srt db now team period metric 0))]"
  by (simp add: getLeaderboard_full assign_ranks_ranks del: upt_Suc)

lemma take_ranks: "take n (map int [Suc 0..<Suc m]) = map int [Suc 0..<Suc (min n m)]"
  by (simp add: take_map take_upt min_def del: upt_Suc)

lemma limited_ranks:
  "map Rank (getLeaderboard srt db now team period metric limit)
   = map int [1..<Suc (length (getLeaderboard srt db now team period metric limit))]"
proof -
  define full where "full = getLeaderboard srt db now team period metric 0"
  have full: "map Rank full = map int [Suc 0..<Suc (length full)]"
    unfolding full_def using full_ranks [of srt db now team period metric] by simp
  have "map Rank (take n full) = map int [Suc 0..<Suc (length (take n full))]" for n
  proof -
    have "map Rank (take n full) = take n (map Rank full)"
      by (simp add: take_map)
    also have "\<dots> = map int [Suc 0..<Suc (min n (length full))]"
      unfolding full by (rule take_ranks)
    finally show ?thesis by (simp add: min.commute del: upt_Suc)
  qed
  with full show ?thesis
    by (subst (1 2) getLeaderboard_limit) (simp add: full_def del: upt_Suc)
qed

text \<open>
  C5.  Whatever outcome of the sort the library delivers, the entries of a leaderboard
  are in descending order of \<open>completed_reviews\<close>, \<open>engagement_score\<close> or
  \<open>avg_comment_count\<close> when that is the metric, in ascending order of \<open>avg_ttfr\<close> when
  that is the metric, and in descending order of \<open>completed_reviews\<close> for every other
  metric name.  The ranks of the entries returned are 1, 2, ... in that order, as they
  were assigned after sorting, and the result is the leaderboard without limit cut to its
  first \<open>limit\<close> entries when \<open>limit > 0\<close>.
\<close>

theorem getLeaderboard_sorted_ranked_limited:
  assumes "sort_Slice_ok srt (leaderboard_less metric)"
  shows "(metric = ''completed_reviews'' \<longrightarrow>
            sorted_wrt (\<lambda>a b. e_CompletedReviews b \<le> e_CompletedReviews a)
              (getLeaderboard srt db now team period metric limit))
       \<and> (metric = ''engagement_score'' \<longrightarrow>
            sorted_wrt (\<lambda>a b. e_EngagementScore b \<le> e_EngagementScore a)
              (getLeaderboard srt db now team period metric limit))
       \<and> (metric = ''avg_comment_count'' \<longrightarrow>
            sorted_wrt (\<lambda>a b. e_AvgCommentCount b \<le> e_AvgCommentCount a)
              (getLeaderboard srt db now team period metric limit))
       \<and> (metric = ''avg_ttfr'' \<longrightarrow>
            sorted_wrt (\<lambda>a b. e_AvgTTFR a \<le> e_AvgTTFR b)
              (getLeaderboard srt db now team period metric limit))
       \<and> (metric \<notin> {''completed_reviews'', ''engagement_score'', ''avg_comment_count'', ''avg_ttfr''} \<longrightarrow>
            sorted_wrt (\<lambda>a b. e_CompletedReviews b \<le> e_CompletedReviews a)
              (getLeaderboard srt db now team period metric limit))
       \<and> map Rank (getLeaderboard srt db now team period metric limit)
           = map int [1..<Suc (length (getLeaderboard srt db now team period metric limit))]
       \<and> getLeaderboard srt db now team period metric limit
           = (if 0 < limit then take (nat limit) (getLeaderboard srt db now team period metric 0)
              else getLeaderboard srt db now team period metric 0)"
proof -
  note s = limited_sorted [OF assms, of db now team period limit]
  have 1: "sorted_wrt (\<lambda>a b. e_CompletedReviews b \<le> e_CompletedReviews a)
              (getLeaderboard srt db now team period metric limit)"
    if "metric = ''completed_reviews''"
    using s that by (simp add: leaderboard_less_def not_less)
  have 2: "sorted_wrt (\<lambda>a b. e_EngagementScore b \<le> e_EngagementScore a)
              (getLeaderboard srt db now team period metric limit)"
    if "metric = ''engagement_score''"
    using s that by (simp add: leaderboard_less_def not_less)
  have 3: "sorted_wrt (\<lambda>a b. e_AvgCommentCount b \<le> e_AvgCommentCount a)
              (getLeaderboard srt db now team period metric limit)"
    if "metric = ''avg_comment_count''"
    using s that by (simp add: leaderboard_less_def not_less)
  have 4: "sorted_wrt (\<lambda>a b. e_AvgTTFR a \<le> e_AvgTTFR b)
              (getLeaderboard srt db now team period metric limit)"
    if "metric = ''avg_ttfr''"
    using s that by (simp add: leaderboard_less_def not_less)
  have 5: "sorted_wrt (\<lambda>a b. e_CompletedReviews b \<le> e_CompletedReviews a)
              (getLeaderboard srt db now team period metric limit)"
    if "metric \<notin> {''completed_reviews'', ''engagement_score'', ''avg_comment_count'', ''avg_ttfr''}"
    using s that by (simp add: leaderboard_less_def not_less)
  show ?thesis
    using 1 2 3 4 5 limited_ranks [of srt db now team period metric limit]
      getLeaderboard_limit [of srt db now team period metric limit]
    by blast
qed

text \<open>
  C6, as the code has it.  Without limit, the ranks of the entries are 1, ..., n in list
  order (so each is unique), the entries are sorted by the comparison of the metric, and
  the rank of an entry is at least 1 plus the number of strictly better entries and at
  most that number plus the number of entries tied with it (itself included).  The rank
  equals 1 plus the number of strictly better entries for an entry that is tied with no
  other.
\<close>

theorem getLeaderboard_rank_bounds:
  assumes "sort_Slice_ok srt (leaderboard_less metric)"
    and "res = getLeaderboard srt db now team period metric 0"
  shows "map Rank res = map int [1..<Suc (length res)]
       \<and> distinct (map Rank res)
       \<and> sorted_wrt (\<lambda>a b. \<not> leaderboard_less metric b a) res
       \<and> (\<forall>e\<in>set res. 1 + int (strictly_better metric res e) \<le> Rank e
                       \<and> Rank e \<le> int (strictly_better metric res e + tied metric res e))
       \<and> (\<forall>e\<in>set res. tied metric res e = 1 \<longrightarrow> Rank e = 1 + int (strictly_better metric res e))"
proof -
  have ranks: "map Rank res = map int [1..<Suc (length res)]"
    unfolding assms(2) by (rule full_ranks)
  have dist: "distinct (map Rank res)"
    unfolding ranks by (simp add: distinct_map inj_on_def del: upt_Suc)
  have sorted: "sorted_wrt (\<lambda>a b. \<not> leaderboard_less metric b a) res"
    unfolding assms(2) by (rule full_sorted [OF assms(1)])
  have bounds: "1 + int (strictly_better metric res e) \<le> Rank e
                \<and> Rank e \<le> int (strictly_better metric res e + tied metric res e)"
    if "e \<in> set res" for e
  proof -
    from that obtain i where i: "i < length res" "res ! i = e"
      by (auto simp add: in_set_conv_nth)
    have "Rank e = map Rank res ! i"
      using i by simp
    then have r: "Rank e = int i + 1"
      using i unfolding ranks by (simp add: nth_upt del: upt_Suc)
    have "strictly_better metric res e \<le> i"
      using sorted_better_le [OF sorted leaderboard_less_irrefl i(1)] i(2)
      by (simp add: strictly_better_def)
    moreover have "i < strictly_better metric res e + tied metric res e"
      using sorted_not_worse_gt [OF sorted leaderboard_less_irrefl i(1)] i(2)
      by (simp add: better_plus_tied)
    ultimately show ?thesis using r by simp
  qed
  then have exact: "Rank e = 1 + int (strictly_better metric res e)"
    if "e \<in> set res" "tied metric res e = 1" for e
    using that by fastforce
  show ?thesis using ranks dist sorted bounds exact by blast
qed

lemma ranking_entries:
  "leaderboard_entries ranking_db ranking_now [] ''all_time''
   = [entry alice 10 60 2 10 0, entry bob 8 120 3 15 0]"
  by (simp add: leaderboard_entries_def GetByDateRange_def no_filters_def ranking_db_def
      metrics_row_def between_def date_2000_01_01_UTC_def Second_def ranking_now_def
      leaderboard_aggregateMetricsByUser_def zero_aggregatedMetrics_def add_metric_def
      calc_averages_def build_entry_def GetByID_def alice_def bob_def GetUserBadgeCount_def
      entry_def Let_def)

lemma tie_entries:
  "leaderboard_entries tie_db ranking_now [] ''all_time''
   = [entry alice 5 60 2 10 0, entry bob 5 90 3 15 0]"
  by (simp add: leaderboard_entries_def GetByDateRange_def no_filters_def ranking_db_def tie_db_def
      metrics_row_def between_def date_2000_01_01_UTC_def Second_def ranking_now_def
      leaderboard_aggregateMetricsByUser_def zero_aggregatedMetrics_def add_metric_def
      calc_averages_def build_entry_def GetByID_def alice_def bob_def GetUserBadgeCount_def
      entry_def Let_def)

lemma ranking_leaderboard_ttfr:
  "getLeaderboard insertion_sort ranking_db ranking_now [] ''all_time'' ''avg_ttfr'' 0
   = [entry alice 10 60 2 10 1, entry bob 8 120 3 15 2]"
  by (simp add: getLeaderboard_full ranking_entries insertion_sort_def leaderboard_less_def
      entry_def assign_ranks_def)

lemma ranking_leaderboard_score:
  "getLeaderboard insertion_sort ranking_db ranking_now [] ''all_time'' ''engagement_score'' 0
   = [entry bob 8 120 3 15 1, entry alice 10 60 2 10 2]"
  by (simp add: getLeaderboard_full ranking_entries insertion_sort_def leaderboard_less_def
      entry_def assign_ranks_def)

lemma tie_leaderboard:
  "getLeaderboard insertion_sort tie_db ranking_now [] ''all_time'' ''completed_reviews'' 0
   = [entry bob 5 90 3 15 1, entry alice 5 60 2 10 2]"
  by (simp add: getLeaderboard_full tie_entries insertion_sort_def leaderboard_less_def
      entry_def assign_ranks_def)

lemma ranking_user_rank:
  "GetUserRank insertion_sort ranking_db ranking_now 11 ''all_time'' ''engagement_score'' = Inr 2"
  by (simp add: GetUserRank_def GetGlobalLeaderboard_def ranking_leaderboard_score entry_def
      alice_def bob_def)

text \<open>
  C6, as stated, fails where two entries tie: in the tie scenario the two users get the
  ranks 1 and 2, and no entry is strictly better than the one of rank 2.  (Which of the
  two gets rank 2 depends on the sort; one of them does.)
\<close>

theorem getLeaderboard_rank_bounds_counterexample:
  "\<not> (\<forall>e \<in> set (getLeaderboard insertion_sort tie_db ranking_now [] ''all_time'' ''completed_reviews'' 0).
        Rank e = 1 + int (strictly_better ''completed_reviews''
           (getLeaderboard insertion_sort tie_db ranking_now [] ''all_time'' ''completed_reviews'' 0) e))"
  by (simp add: tie_leaderboard strictly_better_def leaderboard_less_def entry_def)

text \<open>
  The same holds for every sorting function that keeps the promise of \<open>sort.Slice\<close>.
\<close>

lemma tie_any_sort:
  assumes "sort_Slice_ok srt (leaderboard_less ''completed_reviews'')"
  shows "\<not> (\<forall>e \<in> set (getLeaderboard srt tie_db ranking_now [] ''all_time'' ''completed_reviews'' 0).
            Rank e = 1 + int (strictly_better ''completed_reviews''
              (getLeaderboard srt tie_db ranking_now [] ''all_time'' ''completed_reviews'' 0) e))"
proof -
  define res where "res = getLeaderboard srt tie_db ranking_now [] ''all_time'' ''completed_reviews'' 0"
  define L where "L = srt (leaderboard_less ''completed_reviews'')
                        (leaderboard_entries tie_db ranking_now [] ''all_time'')"
  have res: "res = assign_ranks L"
    by (simp add: res_def L_def getLeaderboard_full)
  have mset: "mset L = mset [entry alice 5 60 2 10 0, entry bob 5 90 3 15 0]"
    using assms by (simp add: L_def sort_Slice_ok_def tie_entries)
  have len: "length L = 2"
    using arg_cong [OF mset, of size] by simp
  have setL: "set L = {entry alice 5 60 2 10 0, entry bob 5 90 3 15 0}"
    using arg_cong [OF mset, of set_mset] by simp
  have five: "e_CompletedReviews e = 5" if "e \<in> set L" for e
  proof -
    from that setL have "e = entry alice 5 60 2 10 0 \<or> e = entry bob 5 90 3 15 0"
      by blast
    then show ?thesis
      by (rule disjE) (simp_all add: entry_def)
  qed
  have five': "e_CompletedReviews e = 5" if "e \<in> set res" for e
  proof -
    from that obtain i where "i < length L" "e = (L ! i)\<lparr>Rank := int i + 1\<rparr>"
      unfolding res by (auto simp add: in_set_conv_nth assign_ranks_nth)
    with five [of "L ! i"] show ?thesis by simp
  qed
  have none: "strictly_better ''completed_reviews'' res e = 0" if "e \<in> set res" for e
    using that by (simp add: strictly_better_def leaderboard_less_def filter_empty_conv five')
  have "1 < length res"
    using len by (simp add: res)
  then have in_res: "res ! 1 \<in> set res"
    by (rule nth_mem)
  have "Rank (res ! 1) = 2"
    using len by (simp add: res assign_ranks_nth)
  note second = in_res this
  show ?thesis
    unfolding res_def [symmetric]
  proof
    assume "\<forall>e\<in>set res. Rank e = 1 + int (strictly_better ''completed_reviews'' res e)"
    with second(1) have "Rank (res ! 1) = 1 + int (strictly_better ''completed_reviews'' res (res ! 1))"
      by blast
    with none [OF second(1)] second(2) show False by simp
  qed
qed

theorem getLeaderboard_rank_bounds_witness:
  "sort_Slice_ok insertion_sort (leaderboard_less ''completed_reviews'')
   \<and> map Rank (getLeaderboard insertion_sort tie_db ranking_now [] ''all_time'' ''completed_reviews'' 0) = [1, 2]
   \<and> entry alice 5 60 2 10 2
        \<in> set (getLeaderboard insertion_sort tie_db ranking_now [] ''all_time'' ''completed_reviews'' 0)
   \<and> 1 + int (strictly_better ''completed_reviews''
        (getLeaderboard insertion_sort tie_db ranking_now [] ''all_time'' ''completed_reviews'' 0)
        (entry alice 5 60 2 10 2)) \<le> 2
   \<and> 2 \<le> int (strictly_better ''completed_reviews''
        (getLeaderboard insertion_sort tie_db ranking_now [] ''all_time'' ''completed_reviews'' 0)
        (entry alice 5 60 2 10 2)
      + tied ''completed_reviews''
        (getLeaderboard insertion_sort tie_db ranking_now [] ''all_time'' ''completed_reviews'' 0)
        (entry alice 5 60 2 10 2))"
  using getLeaderboard_rank_bounds [of insertion_sort "''completed_reviews''"
          "getLeaderboard insertion_sort tie_db ranking_now [] ''all_time'' ''completed_reviews'' 0"
          tie_db ranking_now "[]" "''all_time''"]
        insertion_sort_leaderboard [of "''completed_reviews''"]
  by (simp add: tie_leaderboard entry_def)

theorem getLeaderboard_sorted_ranked_limited_witness:
  "sort_Slice_ok insertion_sort (leaderboard_less ''avg_ttfr'')
   \<and> getLeaderboard insertion_sort ranking_db ranking_now [] ''all_time'' ''avg_ttfr'' 1
       = [entry alice 10 60 2 10 1]
   \<and> sorted_wrt (\<lambda>a b. e_AvgTTFR a \<le> e_AvgTTFR b)
        (getLeaderboard insertion_sort ranking_db ranking_now [] ''all_time'' ''avg_ttfr'' 0)
   \<and> map Rank (getLeaderboard insertion_sort ranking_db ranking_now [] ''all_time'' ''avg_ttfr'' 0)
       = [1, 2]"
  using getLeaderboard_sorted_ranked_limited [of insertion_sort "''avg_ttfr''"
          ranking_db ranking_now "[]" "''all_time''" 1]
        getLeaderboard_sorted_ranked_limited [of insertion_sort "''avg_ttfr''"
          ranking_db ranking_now "[]" "''all_time''" 0]
        insertion_sort_leaderboard [of "''avg_ttfr''"]
  by (simp add: ranking_leaderboard_ttfr)

section \<open>Results: the top operator\<close>

lemma supported_value:
  "metric \<in> {''completed_reviews'', ''engagement_score'', ''avg_ttfr'', ''avg_comment_count''} \<Longrightarrow>
   getMetricValue m metric = Inr (metric_value metric m)"
  by (auto simp add: metric_value_def getMetricValue_def split: option.splits)

lemma loop_supported:
  assumes "metric \<in> {''completed_reviews'', ''engagement_score'', ''avg_ttfr'', ''avg_comment_count''}"
  shows "badges_aggregateMetricsByUser_loop metric ms acc = Inr (fold (add_row metric) ms acc)"
  by (induction ms arbitrary: acc)
     (simp_all add: supported_value [OF assms] add_row_def split: option.splits)

lemma map_modify_keys: "fst ` set (map_modify k z f kvs) = insert k (fst ` set kvs)"
proof (induction kvs)
  case Nil
  show ?case by simp
next
  case (Cons p kvs)
  obtain k' w where p: "p = (k', w)" by (cases p)
  show ?case
    using Cons.IH by (cases "k' = k") (simp_all add: p insert_commute)
qed

lemma map_modify_distinct:
  "distinct (map fst kvs) \<Longrightarrow> distinct (map fst (map_modify k z f kvs))"
  by (induction kvs) (auto simp add: map_modify_keys)

lemma map_modify_map_of:
  "map_of (map_modify k z f kvs) k'
   = (if k' = k then Some (f (case map_of kvs k of Some w \<Rightarrow> w | None \<Rightarrow> z)) else map_of kvs k')"
  by (induction kvs) auto

lemma add_row_distinct: "distinct (map fst acc) \<Longrightarrow> distinct (map fst (add_row metric m acc))"
  by (simp add: add_row_def map_modify_distinct split: option.splits)

lemma add_row_keys:
  "fst ` set (add_row metric m acc)
   = fst ` set acc \<union> (case rm_UserID m of None \<Rightarrow> {} | Some u \<Rightarrow> {u})"
  by (simp add: add_row_def map_modify_keys split: option.splits)

lemma add_row_total:
  "total_of (add_row metric m acc) u
   = total_of acc u + (if rm_UserID m = Some u then metric_value metric m else 0)"
  by (auto simp add: add_row_def total_of_def map_modify_map_of split: option.splits)

lemma fold_add_row:
  "distinct (map fst acc) \<Longrightarrow>
   distinct (map fst (fold (add_row metric) ms acc))
   \<and> fst ` set (fold (add_row metric) ms acc)
       = fst ` set acc \<union> {u. \<exists>m\<in>set ms. rm_UserID m = Some u}
   \<and> (\<forall>u. total_of (fold (add_row metric) ms acc) u = total_of acc u + user_total ms metric u)"
proof (induction ms arbitrary: acc)
  case Nil
  then show ?case by (simp add: user_total_def)
next
  case (Cons m ms)
  have d: "distinct (map fst (add_row metric m acc))"
    using Cons.prems by (rule add_row_distinct)
  note IH = Cons.IH [OF d]
  have "fst ` set (fold (add_row metric) (m # ms) acc)
       = (fst ` set acc \<union> (case rm_UserID m of None \<Rightarrow> {} | Some u \<Rightarrow> {u}))
         \<union> {u. \<exists>m'\<in>set ms. rm_UserID m' = Some u}"
    using IH by (simp add: add_row_keys)
  also have "\<dots> = fst ` set acc \<union> {u. \<exists>m'\<in>set (m # ms). rm_UserID m' = Some u}"
    by (cases "rm_UserID m") auto
  finally have keys: "fst ` set (fold (add_row metric) (m # ms) acc)
       = fst ` set acc \<union> {u. \<exists>m'\<in>set (m # ms). rm_UserID m' = Some u}" .
  have tot: "total_of (fold (add_row metric) (m # ms) acc) u
             = total_of acc u + user_total (m # ms) metric u" for u
    using IH by (simp add: add_row_total user_total_def)
  show ?case using IH keys tot by simp
qed

lemma aggregate_supported:
  assumes "metric \<in> {''completed_reviews'', ''engagement_score'', ''avg_ttfr'', ''avg_comment_count''}"
  shows "\<exists>aggs. badges_aggregateMetricsByUser rows metric = Inr aggs
          \<and> distinct (map fst aggs)
          \<and> fst ` set aggs = {u. \<exists>m\<in>set rows. rm_UserID m = Some u}
          \<and> (\<forall>u. total_of aggs u = user_total rows metric u)"
  using fold_add_row [of "[]" metric rows]
  by (simp add: badges_aggregateMetricsByUser_def loop_supported [OF assms] total_of_def)

lemma length_filter_mset_eq:
  "mset xs = mset ys \<Longrightarrow> length (filter P xs) = length (filter P ys)"
  by (metis mset_filter size_mset)

lemma userRank_less_irrefl: "\<not> userRank_less a a"
  by (simp add: userRank_less_def)

lemma top_membership:
  assumes ok: "sort_Slice_ok srt userRank_less"
    and d: "distinct (map fst aggs)"
  shows "(u \<in> set (map ur_userID (take n (sortUserRankings srt aggs)))
            \<longrightarrow> u \<in> fst ` set aggs \<and> count_above aggs u < n)
       \<and> (u \<in> fst ` set aggs \<and> count_at_least aggs u \<le> n
            \<longrightarrow> u \<in> set (map ur_userID (take n (sortUserRankings srt aggs))))"
proof -
  define mk where "mk = (\<lambda>p :: nat \<times> rat. \<lparr>ur_userID = fst p, ur_value = snd p\<rparr>)"
  define R where "R = sortUserRankings srt aggs"
  have R: "R = srt userRank_less (map mk aggs)"
    by (simp add: R_def sortUserRankings_def mk_def split_def)
  have mset: "mset R = mset (map mk aggs)"
    and sorted: "sorted_wrt (\<lambda>a b. \<not> userRank_less b a) R"
    using ok by (simp_all add: R sort_Slice_ok_def)
  have setR: "set R = mk ` set aggs"
    using mset by (metis set_mset_mset set_map)
  have val: "total_of aggs (fst p) = snd p" if "p \<in> set aggs" for p
    using that map_of_is_SomeI [OF d, of "fst p" "snd p"] by (simp add: total_of_def)
  have above: "length (filter (\<lambda>y. userRank_less y x) R) = count_above aggs u"
    if "ur_value x = total_of aggs u" for x
    using that length_filter_mset_eq [OF mset, of "\<lambda>y. userRank_less y x"]
    by (simp add: count_above_def filter_map comp_def userRank_less_def mk_def)
  have atleast: "length (filter (\<lambda>y. \<not> userRank_less x y) R) = count_at_least aggs u"
    if "ur_value x = total_of aggs u" for x
    using that length_filter_mset_eq [OF mset, of "\<lambda>y. \<not> userRank_less x y"]
    by (simp add: count_at_least_def filter_map comp_def userRank_less_def mk_def not_less)
  have fwd: "u \<in> fst ` set aggs \<and> count_above aggs u < n"
    if "u \<in> set (map ur_userID (take n R))"
  proof -
    from that obtain i where i: "i < n" "i < length R" "ur_userID (R ! i) = u"
      by (auto simp add: in_set_conv_nth)
    then have "R ! i \<in> mk ` set aggs"
      using setR nth_mem by blast
    then obtain p where p: "p \<in> set aggs" "R ! i = mk p"
      by blast
    with i have fst: "fst p = u"
      by (simp add: mk_def)
    from val [OF p(1)] p(2) fst have "ur_value (R ! i) = total_of aggs u"
      by (simp add: mk_def)
    then have "count_above aggs u \<le> i"
      using sorted_better_le [OF sorted userRank_less_irrefl i(2)] above by simp
    with i p fst show ?thesis by force
  qed
  have bwd: "u \<in> set (map ur_userID (take n R))"
    if "u \<in> fst ` set aggs \<and> count_at_least aggs u \<le> n"
  proof -
    from that obtain p where p: "p \<in> set aggs" "fst p = u"
      by blast
    then have "mk p \<in> set R"
      using setR by blast
    then obtain i where i: "i < length R" "R ! i = mk p"
      by (auto simp add: in_set_conv_nth)
    have "ur_value (R ! i) = total_of aggs u"
      using i(2) p(2) val [OF p(1)] by (simp add: mk_def)
    then have "i < count_at_least aggs u"
      using sorted_not_worse_gt [OF sorted userRank_less_irrefl i(1)] atleast by simp
    with that have "i < n" by simp
    with i have "R ! i \<in> set (take n R)"
      by (metis in_set_conv_nth length_take min_less_iff_conj nth_take)
    moreover have "ur_userID (R ! i) = u"
      using i p by (simp add: mk_def)
    ultimately show ?thesis by force
  qed
  show ?thesis using fwd bwd unfolding R_def by blast
qed

lemma user_metric_present:
  assumes "metric \<in> {''completed_reviews'', ''engagement_score'', ''avg_comment_count'', ''avg_ttfr''}"
  shows "badges_aggregateUserMetrics db u s e metric = None \<longleftrightarrow> GetMetricsByUser db u s e = []"
  using assms by (auto simp add: badges_aggregateUserMetrics_def Let_def)

text \<open>
  What the evaluator computes for the operator \<open>top\<close>, for each of the four metrics that
  \<open>getMetricValue\<close> knows, \<open>avg_ttfr\<close> among them, and a numeric value \<open>v\<close>: the
  evaluation returns no error; the ranking has one entry for each user with a row in the
  window, valued by the sum of the metric over the rows of that user, and is sorted by
  descending value whatever the metric.  The result is true only if the user has a row
  in the window and fewer than \<open>int(v)\<close> users have a greater sum; it is true whenever
  the user has a row in the window and at most \<open>int(v)\<close> users (the user included) have
  a sum that is at least the user's.  Between the two the order that the sort gives to
  equal sums decides.
\<close>

lemma checkCriteria_top_descending_sum:
  assumes srt: "sort_Slice_ok srt userRank_less"
    and op: "Operator c = ''top''" and val: "Value c = JNumber v"
    and metric: "Metric c \<in> {''completed_reviews'', ''engagement_score'', ''avg_ttfr'', ''avg_comment_count''}"
    and rows: "rows = GetByDateRange db (fst (badges_calculatePeriodRange now' (Period c))) now' no_filters"
    and own: "own = GetMetricsByUser db u (fst (badges_calculatePeriodRange now (Period c))) now"
  shows "\<exists>aggs b. badges_aggregateMetricsByUser rows (Metric c) = Inr aggs
      \<and> distinct (map fst aggs)
      \<and> fst ` set aggs = {u'. \<exists>m\<in>set rows. rm_UserID m = Some u'}
      \<and> (\<forall>u'. total_of aggs u' = user_total rows (Metric c) u')
      \<and> checkCriteria srt now now' db c u = Inr b
      \<and> (b \<longrightarrow> own \<noteq> [] \<and> u \<in> fst ` set aggs \<and> int (count_above aggs u) < go_int v)
      \<and> (own \<noteq> [] \<and> u \<in> fst ` set aggs \<and> int (count_at_least aggs u) \<le> go_int v \<longrightarrow> b)"
proof -
  from aggregate_supported [OF metric, of rows]
  obtain aggs where aggs: "badges_aggregateMetricsByUser rows (Metric c) = Inr aggs"
      "distinct (map fst aggs)"
      "fst ` set aggs = {u'. \<exists>m\<in>set rows. rm_UserID m = Some u'}"
      "\<forall>u'. total_of aggs u' = user_total rows (Metric c) u'"
    by blast
  define n where "n = nat (go_int v)"
  define inTop where "inTop \<longleftrightarrow> u \<in> set (map ur_userID (take n (sortUserRankings srt aggs)))"
  have range: "badges_calculatePeriodRange t (Period c)
               = (fst (badges_calculatePeriodRange t (Period c)), t)" for t
    by (simp add: badges_calculatePeriodRange_def Let_def)
  have top: "evaluateTopRanking srt db now' (Metric c) (go_int v) (Period c) u = Inr inTop"
    using aggs(1) unfolding rows inTop_def n_def evaluateTopRanking_def
    by (subst range) (simp add: Let_def)
  have present: "badges_aggregateUserMetrics db u (fst (badges_calculatePeriodRange now (Period c))) now
                   (Metric c) = None \<longleftrightarrow> own = []"
    unfolding own using metric by (intro user_metric_present) auto
  define b where "b \<longleftrightarrow> own \<noteq> [] \<and> inTop"
  have res: "checkCriteria srt now now' db c u = Inr b"
    unfolding checkCriteria_def
    apply (subst range)
    using present top op val
    apply (cases "own = []")
     apply (auto simp add: b_def Let_def split: option.splits)
    done
  note mem = top_membership [OF srt aggs(2), of u n]
  have 1: "own \<noteq> [] \<and> u \<in> fst ` set aggs \<and> int (count_above aggs u) < go_int v" if b
    using that mem by (auto simp add: b_def inTop_def n_def)
  have 2: b if "own \<noteq> [] \<and> u \<in> fst ` set aggs \<and> int (count_at_least aggs u) \<le> go_int v"
  proof -
    from that have "count_at_least aggs u \<le> n"
      unfolding n_def by linarith
    with that mem show ?thesis
      by (simp add: b_def inTop_def)
  qed
  show ?thesis using aggs res 1 2 by blast
qed

lemma tie_rows_all:
  "GetByDateRange tie_db date_2000_01_01_UTC ranking_now no_filters = review_metrics tie_db"
  by (simp add: GetByDateRange_def tie_db_def ranking_db_def metrics_row_def between_def
      no_filters_def date_2000_01_01_UTC_def Second_def ranking_now_def)

lemma tie_sums:
  "badges_aggregateMetricsByUser (review_metrics tie_db) ''avg_ttfr'' = Inr [(11, 60), (12, 90)]"
  by (simp add: badges_aggregateMetricsByUser_def tie_db_def ranking_db_def metrics_row_def
      getMetricValue_def)

lemma tie_own:
  "badges_aggregateUserMetrics tie_db 11 date_2000_01_01_UTC ranking_now ''avg_ttfr'' = Some 60"
  "badges_aggregateUserMetrics tie_db 12 date_2000_01_01_UTC ranking_now ''avg_ttfr'' = Some 90"
  by (simp_all add: badges_aggregateUserMetrics_def GetMetricsByUser_def tie_db_def ranking_db_def
      metrics_row_def between_def date_2000_01_01_UTC_def Second_def ranking_now_def
      sum_opt_int_def Let_def)

lemma tie_top:
  "checkCriteria insertion_sort ranking_now ranking_now tie_db (top_criteria ''avg_ttfr'' 1) 11
     = Inr False"
  "checkCriteria insertion_sort ranking_now ranking_now tie_db (top_criteria ''avg_ttfr'' 1) 12
     = Inr True"
  by (simp_all add: checkCriteria_def top_criteria_def tie_own evaluateTopRanking_def
      tie_rows_all tie_sums sortUserRankings_def insertion_sort_def userRank_less_def)

lemma tie_leaderboard_ttfr:
  "getLeaderboard insertion_sort tie_db ranking_now [] ''all_time'' ''avg_ttfr'' 0
   = [entry alice 5 60 2 10 1, entry bob 5 90 3 15 2]"
  by (simp add: getLeaderboard_full tie_entries insertion_sort_def leaderboard_less_def
      entry_def assign_ranks_def)

lemma tie_user_rank:
  "GetUserRank insertion_sort tie_db ranking_now 11 ''all_time'' ''avg_ttfr'' = Inr 1"
  "GetUserRank insertion_sort tie_db ranking_now 12 ''all_time'' ''avg_ttfr'' = Inr 2"
  by (simp_all add: GetUserRank_def GetGlobalLeaderboard_def tie_leaderboard_ttfr entry_def
      alice_def bob_def)

text \<open>
  C4.  The criterion \<open>top\<close> does not follow the ranking of section 4.G, which the
  leaderboard implements (\<open>GetUserRank\<close>).  In the tie scenario the average time to
  first review of alice is 60 minutes and that of bob is 90: the leaderboard sorts
  \<open>avg_ttfr\<close> ascending and ranks alice 1 and bob 2, but the criterion \<open>top 1\<close> on
  \<open>avg_ttfr\<close> is false for alice and true for bob, the slower of the two.  In the
  ranking scenario alice has the engagement scores 10 and 10 and bob has 15: the
  leaderboard ranks by the mean and gives alice the rank 2, but the criterion \<open>top 1\<close> on
  \<open>engagement_score\<close> is true for alice, whose scores sum to 20.
\<close>

theorem top_criteria_against_leaderboard:
  "checkCriteria insertion_sort ranking_now ranking_now tie_db (top_criteria ''avg_ttfr'' 1) 11
     = Inr False
   \<and> GetUserRank insertion_sort tie_db ranking_now 11 ''all_time'' ''avg_ttfr'' = Inr 1
   \<and> checkCriteria insertion_sort ranking_now ranking_now tie_db (top_criteria ''avg_ttfr'' 1) 12
       = Inr True
   \<and> GetUserRank insertion_sort tie_db ranking_now 12 ''all_time'' ''avg_ttfr'' = Inr 2
   \<and> checkCriteria insertion_sort ranking_now ranking_now ranking_db
        (top_criteria ''engagement_score'' 1) 11 = Inr True
   \<and> GetUserRank insertion_sort ranking_db ranking_now 11 ''all_time'' ''engagement_score'' = Inr 2"
  by (simp add: tie_top tie_user_rank ranking_top ranking_user_rank)

section \<open>Results: a second run of the aggregator\<close>

lemma matches_key_iff: "matches_key m r \<longleftrightarrow> metric_key r = metric_key m"
  by (auto simp add: matches_key_def metric_key_def split: option.splits)

lemma metric_key_ID [simp]: "metric_key (m\<lparr>rm_ID := i\<rparr>) = metric_key m"
  by (simp add: metric_key_def)

lemma metric_key_CreatedAt [simp]: "metric_key (m\<lparr>rm_CreatedAt := x\<rparr>) = metric_key m"
  by (simp add: metric_key_def)

lemma wf_distinct: "wf_metrics rows \<Longrightarrow> distinct (map rm_ID rows)"
  unfolding wf_metrics_def by (induction rows) auto

lemma fold_max_ge: "(a::nat) \<le> fold max xs a \<and> (\<forall>x\<in>set xs. x \<le> fold max xs a)"
proof (induction xs arbitrary: a)
  case Nil
  show ?case by simp
next
  case (Cons x xs)
  from Cons [of "max x a"] show ?case by auto
qed

lemma next_id_fresh: "r \<in> set rows \<Longrightarrow> rm_ID r < next_id rows"
  using fold_max_ge [of 0 "map rm_ID rows"] by (auto simp add: next_id_def less_Suc_eq_le)

lemma next_id_cong: "map rm_ID rows = map rm_ID rows' \<Longrightarrow> next_id rows = next_id rows'"
  by (simp add: next_id_def)

lemma replace_first_ids [simp]: "map rm_ID (replace_first m rows) = map rm_ID rows"
  by (induction rows) simp_all

lemma replace_first_keys [simp]: "map metric_key (replace_first m rows) = map metric_key rows"
  by (induction rows) simp_all

lemma replace_first_absent:
  "metric_key m \<notin> metric_key ` set rows \<Longrightarrow> replace_first m rows = rows"
  by (induction rows) auto

lemma Save_other:
  "\<forall>r\<in>set rows. rm_ID r \<noteq> rm_ID m \<Longrightarrow> Save m rows = rows"
  by (simp add: Save_def map_idI)

lemma Save_replace:
  "distinct (map rm_ID rows) \<Longrightarrow> find (matches_key m) rows = Some ex \<Longrightarrow>
   Save (m\<lparr>rm_ID := rm_ID ex\<rparr>) rows = replace_first m rows"
proof (induction rows)
  case Nil
  then show ?case by simp
next
  case (Cons r rs)
  show ?case
  proof (cases "matches_key m r")
    case True
    with Cons.prems have ex: "ex = r" by simp
    have "rm_ID r \<notin> rm_ID ` set rs"
      using Cons.prems(1) by simp
    then have "\<forall>x\<in>set rs. rm_ID x \<noteq> rm_ID r"
      by (metis image_eqI)
    then have "Save (m\<lparr>rm_ID := rm_ID r\<rparr>) rs = rs"
      by (intro Save_other) simp
    then show ?thesis
      using True by (simp add: ex Save_def matches_key_iff)
  next
    case False
    with Cons.prems have f: "find (matches_key m) rs = Some ex" by simp
    then have "ex \<in> set rs"
      by (auto simp add: find_Some_iff)
    moreover have "rm_ID r \<notin> rm_ID ` set rs"
      using Cons.prems(1) by simp
    ultimately have "rm_ID r \<noteq> rm_ID ex"
      by (metis image_eqI)
    moreover have "Save (m\<lparr>rm_ID := rm_ID ex\<rparr>) rs = replace_first m rs"
      using Cons.IH Cons.prems(1) f by simp
    ultimately show ?thesis
      using False by (simp add: Save_def matches_key_iff)
  qed
qed

lemma Create_ids: "map rm_ID (Create clock m rows) = map rm_ID rows @ [next_id rows]"
  by (simp add: Create_def Let_def)

lemma Create_keys: "map metric_key (Create clock m rows) = map metric_key rows @ [metric_key m]"
  by (simp add: Create_def Let_def)

lemma Create_stopped: "Create stopped_clock m rows = rows @ [m\<lparr>rm_ID := next_id rows\<rparr>]"
  by (simp add: Create_def stopped_clock_def Let_def)

lemma CreateOrUpdate_cases:
  assumes "wf_metrics rows"
  shows "CreateOrUpdate clock m rows
         = (if metric_key m \<in> metric_key ` set rows then replace_first m rows
            else Create clock m rows)"
proof (cases "find (matches_key m) rows")
  case None
  then have "metric_key m \<notin> metric_key ` set rows"
    by (auto simp add: find_None_iff matches_key_iff)
  with None show ?thesis
    by (simp add: CreateOrUpdate_def)
next
  case (Some ex)
  then have "metric_key m \<in> metric_key ` set rows"
    by (auto simp add: find_Some_iff matches_key_iff) (metis nth_mem image_eqI)
  with Some Save_replace [OF wf_distinct [OF assms] Some] show ?thesis
    by (simp add: CreateOrUpdate_def)
qed

lemma CreateOrUpdate_wf: "wf_metrics rows \<Longrightarrow> wf_metrics (CreateOrUpdate clock m rows)"
proof -
  assume wf: "wf_metrics rows"
  have "sorted_wrt (<) (map rm_ID rows @ [next_id rows])"
    using wf next_id_fresh by (auto simp add: wf_metrics_def sorted_wrt_append)
  with wf show ?thesis
    by (simp add: CreateOrUpdate_cases wf_metrics_def Create_ids)
qed

lemma CreateOrUpdate_keys:
  "wf_metrics rows \<Longrightarrow>
   metric_key ` set (CreateOrUpdate clock m rows) = insert (metric_key m) (metric_key ` set rows)"
proof -
  assume wf: "wf_metrics rows"
  have "set (map metric_key (replace_first m rows)) = set (map metric_key rows)"
    by simp
  then have 1: "metric_key ` set (replace_first m rows) = metric_key ` set rows"
    by (simp only: set_map)
  have "set (map metric_key (Create clock m rows)) = set (map metric_key rows @ [metric_key m])"
    by (simp only: Create_keys)
  then have 2: "metric_key ` set (Create clock m rows) = insert (metric_key m) (metric_key ` set rows)"
    by (simp only: set_map set_append) simp
  show ?thesis
    using wf 1 2 by (auto simp add: CreateOrUpdate_cases)
qed

text \<open>An upsert that finds its key creates no row and leaves every id and every key.\<close>

lemma CreateOrUpdate_present:
  assumes "wf_metrics rows" and "metric_key m \<in> metric_key ` set rows"
  shows "map rm_ID (CreateOrUpdate clock m rows) = map rm_ID rows"
    and "map metric_key (CreateOrUpdate clock m rows) = map metric_key rows"
  using assms by (simp_all add: CreateOrUpdate_cases)

lemma fold_CreateOrUpdate_wf:
  "wf_metrics S \<Longrightarrow> wf_metrics (fold (CreateOrUpdate clock) ws S)"
  by (induction ws arbitrary: S) (simp_all add: CreateOrUpdate_wf)

lemma fold_CreateOrUpdate_keys:
  "wf_metrics S \<Longrightarrow>
   metric_key ` set (fold (CreateOrUpdate clock) ws S) = metric_key ` set ws \<union> metric_key ` set S"
  by (induction ws arbitrary: S) (auto simp add: CreateOrUpdate_keys CreateOrUpdate_wf)

lemma fold_CreateOrUpdate_present:
  assumes "wf_metrics S" and "metric_key ` set ws \<subseteq> metric_key ` set S"
  shows "map rm_ID (fold (CreateOrUpdate clock) ws S) = map rm_ID S
       \<and> map metric_key (fold (CreateOrUpdate clock) ws S) = map metric_key S"
  using assms
proof (induction ws arbitrary: S)
  case Nil
  show ?case by simp
next
  case (Cons w ws)
  have w: "metric_key w \<in> metric_key ` set S"
    using Cons.prems by simp
  have wf': "wf_metrics (CreateOrUpdate clock w S)"
    using Cons.prems(1) by (rule CreateOrUpdate_wf)
  have "metric_key ` set ws \<subseteq> metric_key ` set (CreateOrUpdate clock w S)"
    using Cons.prems by (auto simp add: CreateOrUpdate_keys)
  from Cons.IH [OF wf' this] CreateOrUpdate_present [OF Cons.prems(1) w, of clock]
  show ?case by simp
qed

lemma replace_first_same_key:
  "metric_key v = metric_key w \<Longrightarrow> replace_first v (replace_first w rows) = replace_first v rows"
  by (induction rows) simp_all

lemma replace_first_commute:
  "metric_key v \<noteq> metric_key w \<Longrightarrow>
   replace_first v (replace_first w rows) = replace_first w (replace_first v rows)"
  by (induction rows) auto

lemma replace_first_append_present:
  "metric_key m \<in> metric_key ` set rows \<Longrightarrow>
   replace_first m (rows @ tl_rows) = replace_first m rows @ tl_rows"
  by (induction rows) auto

lemma replace_first_append_absent:
  "metric_key m \<notin> metric_key ` set rows \<Longrightarrow>
   replace_first m (rows @ tl_rows) = rows @ replace_first m tl_rows"
  by (induction rows) auto

text \<open>
  With the clock stopped at the zero time an insert leaves \<open>created_at\<close> as the metric has
  it: upserts on one key absorb each other, and upserts on different keys commute.
\<close>

lemma CreateOrUpdate_absorb:
  assumes wf: "wf_metrics S" and key: "metric_key v = metric_key w"
  shows "CreateOrUpdate stopped_clock v (CreateOrUpdate stopped_clock w S)
         = CreateOrUpdate stopped_clock v S"
proof (cases "metric_key w \<in> metric_key ` set S")
  case True
  with wf key have "CreateOrUpdate stopped_clock v (CreateOrUpdate stopped_clock w S)
      = CreateOrUpdate stopped_clock v (replace_first w S)"
    by (simp add: CreateOrUpdate_cases)
  also have "\<dots> = replace_first v (replace_first w S)"
    using CreateOrUpdate_cases [OF CreateOrUpdate_wf [OF wf, of stopped_clock w], of stopped_clock v]
      CreateOrUpdate_keys [OF wf, of stopped_clock w] True key wf
    by (simp add: CreateOrUpdate_cases)
  finally show ?thesis
    using True key wf by (simp add: replace_first_same_key CreateOrUpdate_cases)
next
  case False
  define w' where "w' = w\<lparr>rm_ID := next_id S\<rparr>"
  have cw: "CreateOrUpdate stopped_clock w S = S @ [w']"
    using False wf by (simp add: CreateOrUpdate_cases Create_stopped w'_def)
  have "wf_metrics (S @ [w'])"
    using CreateOrUpdate_wf [OF wf, of stopped_clock w] cw by simp
  then have "CreateOrUpdate stopped_clock v (S @ [w']) = replace_first v (S @ [w'])"
    using key by (simp add: CreateOrUpdate_cases Create_stopped w'_def)
  also have "\<dots> = S @ [v\<lparr>rm_ID := next_id S\<rparr>]"
    using False key by (simp add: replace_first_append_absent w'_def)
  finally show ?thesis
    using False key wf cw by (simp add: CreateOrUpdate_cases Create_stopped)
qed

lemma CreateOrUpdate_commute:
  assumes wf: "wf_metrics S" and key: "metric_key v \<noteq> metric_key w"
    and present: "metric_key v \<in> metric_key ` set S"
  shows "CreateOrUpdate stopped_clock v (CreateOrUpdate stopped_clock w S)
         = CreateOrUpdate stopped_clock w (CreateOrUpdate stopped_clock v S)"
proof -
  have wfv: "wf_metrics (replace_first v S)"
    using wf by (simp add: wf_metrics_def)
  have keysv: "metric_key ` set (replace_first v S) = metric_key ` set S"
    using replace_first_keys [of v S] by (metis set_map)
  have cv: "CreateOrUpdate stopped_clock v S = replace_first v S"
    using wf present by (simp add: CreateOrUpdate_cases)
  show ?thesis
  proof (cases "metric_key w \<in> metric_key ` set S")
    case True
    have wfw: "wf_metrics (replace_first w S)"
      using wf by (simp add: wf_metrics_def)
    have keysw: "metric_key ` set (replace_first w S) = metric_key ` set S"
      using replace_first_keys [of w S] by (metis set_map)
    have "CreateOrUpdate stopped_clock v (CreateOrUpdate stopped_clock w S)
          = replace_first v (replace_first w S)"
      using wf True present wfw keysw by (simp add: CreateOrUpdate_cases)
    moreover have "CreateOrUpdate stopped_clock w (CreateOrUpdate stopped_clock v S)
          = replace_first w (replace_first v S)"
      using True wfv keysv by (simp add: cv CreateOrUpdate_cases)
    ultimately show ?thesis
      using key by (simp add: replace_first_commute)
  next
    case False
    define w' where "w' = w\<lparr>rm_ID := next_id S\<rparr>"
    have cw: "CreateOrUpdate stopped_clock w S = S @ [w']"
      using False wf by (simp add: CreateOrUpdate_cases Create_stopped w'_def)
    have "wf_metrics (S @ [w'])"
      using CreateOrUpdate_wf [OF wf, of stopped_clock w] cw by simp
    then have "CreateOrUpdate stopped_clock v (S @ [w']) = replace_first v (S @ [w'])"
      using present by (simp add: CreateOrUpdate_cases)
    also have "\<dots> = replace_first v S @ [w']"
      using present by (simp add: replace_first_append_present)
    finally have l: "CreateOrUpdate stopped_clock v (CreateOrUpdate stopped_clock w S)
          = replace_first v S @ [w']"
      by (simp add: cw)
    have "next_id (replace_first v S) = next_id S"
      by (rule next_id_cong) simp
    then have "CreateOrUpdate stopped_clock w (replace_first v S) = replace_first v S @ [w']"
      using False wfv keysv by (simp add: CreateOrUpdate_cases Create_stopped w'_def)
    with l cv show ?thesis by simp
  qed
qed

lemma CreateOrUpdate_through_fold:
  assumes "wf_metrics S" and "metric_key ` set vs \<subseteq> metric_key ` set S"
  shows "CreateOrUpdate stopped_clock w
           (fold (CreateOrUpdate stopped_clock) vs (CreateOrUpdate stopped_clock w S))
         = CreateOrUpdate stopped_clock w (fold (CreateOrUpdate stopped_clock) vs S)"
  using assms
proof (induction vs arbitrary: S)
  case Nil
  then show ?case by (simp add: CreateOrUpdate_absorb)
next
  case (Cons v vs)
  have wfv: "wf_metrics (CreateOrUpdate stopped_clock v S)"
    using Cons.prems(1) by (rule CreateOrUpdate_wf)
  have keysv: "metric_key ` set vs \<subseteq> metric_key ` set (CreateOrUpdate stopped_clock v S)"
    using Cons.prems by (auto simp add: CreateOrUpdate_keys)
  show ?case
  proof (cases "metric_key v = metric_key w")
    case True
    then show ?thesis
      using Cons.prems(1) by (simp add: CreateOrUpdate_absorb)
  next
    case False
    have "CreateOrUpdate stopped_clock v (CreateOrUpdate stopped_clock w S)
          = CreateOrUpdate stopped_clock w (CreateOrUpdate stopped_clock v S)"
      using Cons.prems False by (intro CreateOrUpdate_commute) auto
    then show ?thesis
      using Cons.IH [OF wfv keysv] by simp
  qed
qed

lemma fold_CreateOrUpdate_idem:
  "wf_metrics T \<Longrightarrow>
   fold (CreateOrUpdate stopped_clock) ws (fold (CreateOrUpdate stopped_clock) ws T)
   = fold (CreateOrUpdate stopped_clock) ws T"
proof (induction ws arbitrary: T rule: rev_induct)
  case Nil
  show ?case by simp
next
  case (snoc w ws)
  define S where "S = fold (CreateOrUpdate stopped_clock) ws T"
  have wfS: "wf_metrics S"
    unfolding S_def using snoc.prems by (rule fold_CreateOrUpdate_wf)
  have keys: "metric_key ` set ws \<subseteq> metric_key ` set S"
    unfolding S_def using snoc.prems by (simp add: fold_CreateOrUpdate_keys)
  have "fold (CreateOrUpdate stopped_clock) (ws @ [w]) (fold (CreateOrUpdate stopped_clock) (ws @ [w]) T)
        = CreateOrUpdate stopped_clock w
            (fold (CreateOrUpdate stopped_clock) ws (CreateOrUpdate stopped_clock w S))"
    by (simp add: S_def)
  also have "\<dots> = CreateOrUpdate stopped_clock w (fold (CreateOrUpdate stopped_clock) ws S)"
    using wfS keys by (rule CreateOrUpdate_through_fold)
  also have "fold (CreateOrUpdate stopped_clock) ws S = S"
    unfolding S_def using snoc.prems by (rule snoc.IH)
  finally show ?case by (simp add: S_def)
qed

lemma fold_CreateOrUpdate_permuted:
  assumes wf: "wf_metrics U"
    and perm: "mset xs = mset ys"
    and keys: "distinct (map metric_key xs)"
    and present: "metric_key ` set xs \<subseteq> metric_key ` set U"
  shows "fold (CreateOrUpdate stopped_clock) xs U = fold (CreateOrUpdate stopped_clock) ys U"
proof (rule fold_permuted_eq [where P = "\<lambda>z. wf_metrics z \<and> metric_key ` set xs \<subseteq> metric_key ` set z"])
  show "mset xs = mset ys" by (rule perm)
  show "wf_metrics U \<and> metric_key ` set xs \<subseteq> metric_key ` set U"
    using wf present by simp
next
  fix x z
  assume "x \<in> set xs" "wf_metrics z \<and> metric_key ` set xs \<subseteq> metric_key ` set z"
  then show "wf_metrics (CreateOrUpdate stopped_clock x z)
             \<and> metric_key ` set xs \<subseteq> metric_key ` set (CreateOrUpdate stopped_clock x z)"
    by (auto simp add: CreateOrUpdate_wf CreateOrUpdate_keys)
next
  fix x y z
  assume x: "x \<in> set xs" and y: "y \<in> set xs"
    and z: "wf_metrics z \<and> metric_key ` set xs \<subseteq> metric_key ` set z"
  show "CreateOrUpdate stopped_clock x (CreateOrUpdate stopped_clock y z)
        = CreateOrUpdate stopped_clock y (CreateOrUpdate stopped_clock x z)"
  proof (cases "x = y")
    case True
    then show ?thesis by simp
  next
    case False
    with x y keys have "metric_key x \<noteq> metric_key y"
      by (auto simp add: distinct_map inj_on_def)
    moreover have "metric_key x \<in> metric_key ` set z"
      using x z by auto
    ultimately show ?thesis
      using z by (intro CreateOrUpdate_commute) auto
  qed
qed

text \<open>
  Forgetting \<open>created_at\<close> turns an upsert under any clock into the upsert under the
  stopped clock.
\<close>

lemma without_created_simps [simp]:
  "rm_ID (without_created r) = rm_ID r"
  "metric_key (without_created r) = metric_key r"
  "matches_key m (without_created r) = matches_key m r"
  "matches_key (without_created m) r = matches_key m r"
  "without_created (r\<lparr>rm_ID := i\<rparr>) = (without_created r)\<lparr>rm_ID := i\<rparr>"
  "without_created (r\<lparr>rm_CreatedAt := x\<rparr>) = without_created r"
  by (simp_all add: without_created_def metric_key_def matches_key_def split: option.splits)

lemma matches_key_without_created [simp]: "matches_key (without_created m) = matches_key m"
  by (rule ext) simp

lemma without_created_zero: "rm_CreatedAt r = zero_Time \<Longrightarrow> without_created r = r"
  by (simp add: without_created_def)

lemma next_id_without_created [simp]: "next_id (map without_created rows) = next_id rows"
  by (simp add: next_id_def comp_def)

lemma wf_without_created [simp]: "wf_metrics (map without_created rows) = wf_metrics rows"
  by (simp add: wf_metrics_def comp_def)

lemma find_without_created:
  "find (matches_key m) (map without_created rows)
   = map_option without_created (find (matches_key m) rows)"
  by (induction rows) simp_all

lemma Save_without_created:
  "map without_created (Save m rows) = Save (without_created m) (map without_created rows)"
  by (induction rows) (simp_all add: Save_def)

lemma CreateOrUpdate_without_created:
  "map without_created (CreateOrUpdate clock m rows)
   = CreateOrUpdate stopped_clock (without_created m) (map without_created rows)"
proof (cases "find (matches_key m) rows")
  case None
  then show ?thesis
    by (simp add: CreateOrUpdate_def find_without_created Create_stopped)
       (simp add: Create_def Let_def)
next
  case (Some ex)
  then show ?thesis
    by (simp add: CreateOrUpdate_def find_without_created Save_without_created)
qed

lemma fold_CreateOrUpdate_without_created:
  "map without_created (fold (CreateOrUpdate clock) ws S)
   = fold (CreateOrUpdate stopped_clock) (map without_created ws) (map without_created S)"
  by (induction ws arbitrary: S) (simp_all add: CreateOrUpdate_without_created)

text \<open>The rows that a run writes, and what they depend on.\<close>

lemma team_review_step_metrics [simp]:
  "team_review_step (db\<lparr>review_metrics := x\<rparr>) = team_review_step db"
  by (rule ext)+ (simp add: team_review_step_def)

lemma team_metric_metrics [simp]:
  "team_metric (db\<lparr>review_metrics := x\<rparr>) d t rs = team_metric db d t rs"
  by (simp add: team_metric_def)

lemma day_reviews_metrics [simp]:
  "day_reviews date (db\<lparr>review_metrics := x\<rparr>) = day_reviews date db"
  by (simp add: day_reviews_def GetCompletedReviewsByDateRange_def)

lemma team_writes_metrics [simp]:
  "team_writes order date (db\<lparr>review_metrics := x\<rparr>) = team_writes order date db"
  by (simp add: team_writes_def)

lemma user_writes_metrics [simp]:
  "user_writes date (db\<lparr>review_metrics := x\<rparr>) = user_writes date db"
  by (simp add: user_writes_def)

lemma day_writes_metrics [simp]:
  "day_writes order date (db\<lparr>review_metrics := x\<rparr>) = day_writes order date db"
  by (simp add: day_writes_def team_writes_def user_writes_def)

lemma fold_team:
  "fold (\<lambda>team. aggregateTeamMetrics clock d team (f team)) order db
   = db\<lparr>review_metrics :=
         fold (CreateOrUpdate clock) (map (\<lambda>team. team_metric db d team (f team)) order)
              (review_metrics db)\<rparr>"
  by (induction order arbitrary: db) (simp_all add: aggregateTeamMetrics_def)

lemma fold_assignments:
  "fold (\<lambda>assignment d.
           d\<lparr>review_metrics := CreateOrUpdate clock (g assignment) (review_metrics d)\<rparr>) as db
   = db\<lparr>review_metrics := fold (CreateOrUpdate clock) (map g as) (review_metrics db)\<rparr>"
  by (induction as arbitrary: db) simp_all

lemma user_metrics_eq:
  "aggregator_aggregateUserMetrics clock d review db
   = db\<lparr>review_metrics :=
         fold (CreateOrUpdate clock)
              (map (user_metric d review) (GetAssignmentsByMRReviewID db (mr_ID review)))
              (review_metrics db)\<rparr>"
  by (simp add: aggregator_aggregateUserMetrics_def Let_def fold_assignments)

lemma fold_user:
  "fold (aggregator_aggregateUserMetrics clock d) reviews db
   = db\<lparr>review_metrics :=
         fold (CreateOrUpdate clock)
           (concat (map (\<lambda>review. map (user_metric d review)
                                      (GetAssignmentsByMRReviewID db (mr_ID review))) reviews))
           (review_metrics db)\<rparr>"
  by (induction reviews arbitrary: db) (simp_all add: user_metrics_eq)

lemma AggregateDaily_writes:
  "AggregateDaily order clock date db
   = db\<lparr>review_metrics :=
         fold (CreateOrUpdate clock) (day_writes order date db) (review_metrics db)\<rparr>"
  by (simp add: AggregateDaily_def Let_def day_writes_def team_writes_def user_writes_def
      fold_team fold_user flip: day_reviews_def)

lemma day_writes_created:
  "map without_created (day_writes order date db) = day_writes order date db"
proof (rule map_idI)
  fix w
  assume "w \<in> set (day_writes order date db)"
  then have "rm_CreatedAt w = zero_Time"
    by (auto simp add: day_writes_def team_writes_def user_writes_def team_metric_key
        user_metric_key split: if_splits)
  then show "without_created w = w"
    by (rule without_created_zero)
qed

lemma team_writes_keys:
  "map metric_key (team_writes order date db) = map (\<lambda>team. (startOfDay date, team, None, None)) order"
  by (simp add: team_writes_def metric_key_def team_metric_key comp_def)

lemma user_writes_keys:
  "metric_key ` set (user_writes date db)
   = (\<Union>r\<in>set (day_reviews date db).
        (\<lambda>a. (startOfDay date, mr_Team r, Some (ra_UserID a), Some (GitLabProjectID r)))
        ` {a \<in> set (reviewer_assignments db). MRReviewID a = mr_ID r})"
  by (simp add: user_writes_def GetAssignmentsByMRReviewID_def metric_key_def
      user_metric_key image_UN image_image)

text \<open>The same store, its reviews and assignments served in another order.\<close>

lemma served_metrics [simp]:
  "review_metrics (served rs as db) = review_metrics db"
  "served rs as (db\<lparr>review_metrics := x\<rparr>) = (served rs as db)\<lparr>review_metrics := x\<rparr>"
  "reviewer_assignments (served rs as db) = as"
  by (simp_all add: served_def)

lemma day_reviews_served:
  "same_rows db rs as \<Longrightarrow> set (day_reviews date (served rs as db)) = set (day_reviews date db)"
proof -
  assume "same_rows db rs as"
  then have "mset rs = mset (mr_reviews db)"
    by (simp add: same_rows_def)
  then have "set rs = set (mr_reviews db)"
    by (rule mset_eq_setD)
  then show ?thesis
    by (simp add: day_reviews_def GetCompletedReviewsByDateRange_def served_def)
qed

lemma day_writes_keys:
  assumes "team_order (day_reviews date db) order"
  shows "metric_key ` set (day_writes order date db)
         = (if day_reviews date db = [] then {}
            else (\<lambda>team. (startOfDay date, team, None, None)) ` mr_Team ` set (day_reviews date db)
                 \<union> (\<Union>r\<in>set (day_reviews date db).
                      (\<lambda>a. (startOfDay date, mr_Team r, Some (ra_UserID a),
                            Some (GitLabProjectID r)))
                      ` {a \<in> set (reviewer_assignments db). MRReviewID a = mr_ID r}))"
proof -
  have "set (map metric_key (team_writes order date db))
        = set (map (\<lambda>team. (startOfDay date, team, None, None)) order)"
    by (simp only: team_writes_keys)
  then have "metric_key ` set (team_writes order date db)
        = (\<lambda>team. (startOfDay date, team, None, None)) ` mr_Team ` set (day_reviews date db)"
    using assms by (simp add: team_order_def)
  then show ?thesis
    by (simp add: day_writes_def image_Un user_writes_keys)
qed

lemma day_writes_keys_served:
  assumes same: "same_rows db rs as"
    and o1: "team_order (day_reviews date db) order1"
    and o2: "team_order (day_reviews date (served rs as db)) order2"
  shows "metric_key ` set (day_writes order2 date (served rs as db))
         = metric_key ` set (day_writes order1 date db)"
proof -
  have r: "set (day_reviews date (served rs as db)) = set (day_reviews date db)"
    using same by (rule day_reviews_served)
  then have e: "day_reviews date (served rs as db) = [] \<longleftrightarrow> day_reviews date db = []"
    by (metis set_empty)
  have "mset as = mset (reviewer_assignments db)"
    using same by (simp add: same_rows_def)
  then have a: "set as = set (reviewer_assignments db)"
    by (rule mset_eq_setD)
  show ?thesis
    by (simp add: day_writes_keys [OF o1] day_writes_keys [OF o2] r e a)
qed

text \<open>
  What a second run leaves of the first, for every store whose metrics table holds its
  rows under increasing ids, whatever the orders in which the two runs walk the map of
  teams and whatever the clocks.  The second run creates no row and leaves every id and
  every key (date, team, user, project), in whatever order the database serves it the
  reviews and the assignments.  When it is served them in the order of the first run,
  it leaves every column of every row but \<open>created_at\<close>.
\<close>

lemma AggregateDaily_second_run:
  assumes wf: "wf_metrics (review_metrics db)"
    and o1: "team_order (day_reviews date db) order1"
    and same: "same_rows db reviews assignments"
    and o2: "team_order (day_reviews date (served reviews assignments db)) order2"
  shows "map rm_ID (review_metrics (AggregateDaily order2 clock2 date
                      (served reviews assignments (AggregateDaily order1 clock1 date db))))
         = map rm_ID (review_metrics (AggregateDaily order1 clock1 date db))"
    and "map metric_key (review_metrics (AggregateDaily order2 clock2 date
                      (served reviews assignments (AggregateDaily order1 clock1 date db))))
         = map metric_key (review_metrics (AggregateDaily order1 clock1 date db))"
    and "reviews = mr_reviews db \<Longrightarrow> assignments = reviewer_assignments db \<Longrightarrow>
         map without_created (review_metrics (AggregateDaily order2 clock2 date
                      (served reviews assignments (AggregateDaily order1 clock1 date db))))
         = map without_created (review_metrics (AggregateDaily order1 clock1 date db))"
proof -
  define T where "T = review_metrics db"
  define W1 where "W1 = day_writes order1 date db"
  define W2 where "W2 = day_writes order2 date (served reviews assignments db)"
  define U where "U = fold (CreateOrUpdate clock1) W1 T"
  have run1: "review_metrics (AggregateDaily order1 clock1 date db) = U"
    by (simp add: AggregateDaily_writes U_def W1_def T_def)
  have run2: "review_metrics (AggregateDaily order2 clock2 date
                (served reviews assignments (AggregateDaily order1 clock1 date db)))
              = fold (CreateOrUpdate clock2) W2 U"
    by (simp add: AggregateDaily_writes U_def W1_def W2_def T_def)
  have wfU: "wf_metrics U"
    unfolding U_def using wf by (simp add: fold_CreateOrUpdate_wf T_def)
  have keys: "metric_key ` set W2 = metric_key ` set W1"
    unfolding W1_def W2_def using same o1 o2 by (rule day_writes_keys_served)
  have "metric_key ` set U = metric_key ` set W1 \<union> metric_key ` set T"
    unfolding U_def using wf by (simp add: fold_CreateOrUpdate_keys T_def)
  with keys have present: "metric_key ` set W2 \<subseteq> metric_key ` set U"
    by simp
  from fold_CreateOrUpdate_present [OF wfU present, of clock2] run1 run2
  show "map rm_ID (review_metrics (AggregateDaily order2 clock2 date
                      (served reviews assignments (AggregateDaily order1 clock1 date db))))
         = map rm_ID (review_metrics (AggregateDaily order1 clock1 date db))"
    and "map metric_key (review_metrics (AggregateDaily order2 clock2 date
                      (served reviews assignments (AggregateDaily order1 clock1 date db))))
         = map metric_key (review_metrics (AggregateDaily order1 clock1 date db))"
    by simp_all
  show "map without_created (review_metrics (AggregateDaily order2 clock2 date
                      (served reviews assignments (AggregateDaily order1 clock1 date db))))
         = map without_created (review_metrics (AggregateDaily order1 clock1 date db))"
    if "reviews = mr_reviews db" and "assignments = reviewer_assignments db"
  proof (cases "day_reviews date db = []")
    case True
    then have "W2 = []"
      using that by (simp add: W2_def day_writes_def served_def)
    then show ?thesis
      by (simp add: run1 run2)
  next
    case False
    have sv: "served reviews assignments db = db"
      using that by (simp add: served_def)
    define T' where "T' = map without_created T"
    define tw1 where "tw1 = team_writes order1 date db"
    define tw2 where "tw2 = team_writes order2 date db"
    define uw where "uw = user_writes date db"
    define U' where "U' = fold (CreateOrUpdate stopped_clock) (tw1 @ uw) T'"
    have W: "W1 = tw1 @ uw" "W2 = tw2 @ uw"
      using False by (simp_all add: W1_def W2_def sv day_writes_def tw1_def tw2_def uw_def)
    have wfT': "wf_metrics T'"
      using wf by (simp add: T'_def T_def)
    have wfU': "wf_metrics U'"
      unfolding U'_def using wfT' by (rule fold_CreateOrUpdate_wf)
    have "distinct order1" "distinct order2" "set order2 = set order1"
      using o1 o2 by (simp_all add: team_order_def sv)
    then have "mset order2 = mset order1"
      by (simp add: set_eq_iff_mset_eq_distinct)
    then have perm: "mset tw2 = mset tw1"
      unfolding tw1_def tw2_def team_writes_def by (metis mset_map)
    have dist: "distinct (map metric_key tw2)"
      using o2 unfolding tw2_def team_writes_keys
      by (simp add: team_order_def distinct_map inj_on_def)
    have "metric_key ` set U' = metric_key ` set (tw1 @ uw) \<union> metric_key ` set T'"
      unfolding U'_def using wfT' by (rule fold_CreateOrUpdate_keys)
    then have "metric_key ` set tw1 \<subseteq> metric_key ` set U'"
      by auto
    moreover have "set tw2 = set tw1"
      using perm by (rule mset_eq_setD)
    ultimately have present': "metric_key ` set tw2 \<subseteq> metric_key ` set U'"
      by simp
    have "fold (CreateOrUpdate stopped_clock) tw2 U' = fold (CreateOrUpdate stopped_clock) tw1 U'"
      using wfU' perm dist present' by (rule fold_CreateOrUpdate_permuted)
    then have "fold (CreateOrUpdate stopped_clock) (tw2 @ uw) U'
               = fold (CreateOrUpdate stopped_clock) (tw1 @ uw) U'"
      by simp
    also have "\<dots> = U'"
      unfolding U'_def using wfT' by (rule fold_CreateOrUpdate_idem)
    finally have idem: "fold (CreateOrUpdate stopped_clock) (tw2 @ uw) U' = U'" .
    have c1: "map without_created W1 = W1" and c2: "map without_created W2 = W2"
      unfolding W1_def W2_def by (rule day_writes_created)+
    have U': "map without_created U = U'"
      unfolding U_def U'_def T'_def
      by (simp add: fold_CreateOrUpdate_without_created c1 flip: W(1))
    have "map without_created (fold (CreateOrUpdate clock2) W2 U)
          = fold (CreateOrUpdate stopped_clock) W2 U'"
      by (simp add: fold_CreateOrUpdate_without_created c2 U')
    also have "\<dots> = U'"
      using idem by (simp add: W)
    finally show ?thesis
      by (simp add: run1 run2 U')
  qed
qed

text \<open>The two scenarios, run by run.\<close>

lemma scenario_writes:
  "day_writes [''frontend''] 1736899200000000000 scenario_db
   = [aggregated_row 0 None None 1 8 800 88 zero_Time,
      aggregated_row 0 (Some 1) (Some 100) 1 5 500 55 zero_Time,
      aggregated_row 0 (Some 2) (Some 100) 1 3 300 33 zero_Time]"
  by (simp add: day_writes_def day_reviews_def team_writes_def user_writes_def
      startOfDay_def Hour_def Minute_def Second_def scenario_defs
      GetCompletedReviewsByDateRange_def between_opt_def between_def
      MRStatusMerged_def MRStatusClosed_def teamReviews_def
      team_metric_def team_review_step_def GetAssignmentsByMRReviewID_def add_comments_def
      zero_totals_def user_metric_def CalculateEngagementScore_def
      Time_Unix_def aggregated_row_def Let_def)

lemma same_key_writes:
  "day_writes [''frontend''] 1736899200000000000 same_key_db
   = [aggregated_row 0 None None 2 4 400 44 zero_Time,
      aggregated_row 0 (Some 1) (Some 100) 1 5 500 55 zero_Time,
      aggregated_row 0 (Some 1) (Some 100) 1 3 300 33 zero_Time]"
  "day_writes [''frontend''] 1736899200000000000
     (served [second_review, scenario_review] [scenario_assignment1, second_assignment] same_key_db)
   = [aggregated_row 0 None None 2 4 400 44 zero_Time,
      aggregated_row 0 (Some 1) (Some 100) 1 3 300 33 zero_Time,
      aggregated_row 0 (Some 1) (Some 100) 1 5 500 55 zero_Time]"
  by (simp_all add: day_writes_def day_reviews_def team_writes_def user_writes_def
      startOfDay_def Hour_def Minute_def Second_def scenario_defs same_key_db_def served_def
      second_review_def second_assignment_def
      GetCompletedReviewsByDateRange_def between_opt_def between_def
      MRStatusMerged_def MRStatusClosed_def teamReviews_def
      team_metric_def team_review_step_def GetAssignmentsByMRReviewID_def add_comments_def
      zero_totals_def user_metric_def CalculateEngagementScore_def
      Time_Unix_def aggregated_row_def Let_def)

lemma scenario_first_run:
  "AggregateDaily [''frontend''] scenario_clock 1736899200000000000 scenario_db
   = scenario_db\<lparr>review_metrics :=
       [aggregated_row 1 None None 1 8 800 88 (scenario_clock 1),
        aggregated_row 2 (Some 1) (Some 100) 1 5 500 55 (scenario_clock 2),
        aggregated_row 3 (Some 2) (Some 100) 1 3 300 33 (scenario_clock 3)]\<rparr>"
  by (simp add: AggregateDaily_writes scenario_writes)
     (simp add: scenario_db_def CreateOrUpdate_def Create_def matches_key_def next_id_def
      aggregated_row_def zero_Time_def scenario_clock_def Second_def Let_def)

lemma scenario_second_run:
  "review_metrics (AggregateDaily [''frontend''] scenario_clock 1736899200000000000
     (AggregateDaily [''frontend''] scenario_clock 1736899200000000000 scenario_db))
   = [aggregated_row 1 None None 1 8 800 88 zero_Time,
      aggregated_row 2 (Some 1) (Some 100) 1 5 500 55 zero_Time,
      aggregated_row 3 (Some 2) (Some 100) 1 3 300 33 zero_Time]"
  unfolding scenario_first_run
  by (simp add: AggregateDaily_writes scenario_writes)
     (simp add: CreateOrUpdate_def Save_def matches_key_def aggregated_row_def)

lemma same_key_first_run:
  "AggregateDaily [''frontend''] scenario_clock 1736899200000000000 same_key_db
   = same_key_db\<lparr>review_metrics :=
       [aggregated_row 1 None None 2 4 400 44 (scenario_clock 1),
        aggregated_row 2 (Some 1) (Some 100) 1 3 300 33 zero_Time]\<rparr>"
  by (simp add: AggregateDaily_writes same_key_writes)
     (simp add: same_key_db_def scenario_db_def CreateOrUpdate_def Create_def Save_def
      matches_key_def next_id_def aggregated_row_def zero_Time_def scenario_clock_def
      Second_def Let_def)

lemma same_key_second_run:
  "review_metrics (AggregateDaily [''frontend''] scenario_clock 1736899200000000000
     (served [second_review, scenario_review] [scenario_assignment1, second_assignment]
        (AggregateDaily [''frontend''] scenario_clock 1736899200000000000 same_key_db)))
   = [aggregated_row 1 None None 2 4 400 44 zero_Time,
      aggregated_row 2 (Some 1) (Some 100) 1 5 500 55 zero_Time]"
  unfolding same_key_first_run
  by (simp add: AggregateDaily_writes same_key_writes)
     (simp add: CreateOrUpdate_def Save_def matches_key_def aggregated_row_def)

lemma same_key_second_run_same_order:
  "review_metrics (AggregateDaily [''frontend''] scenario_clock 1736899200000000000
     (AggregateDaily [''frontend''] scenario_clock 1736899200000000000 same_key_db))
   = [aggregated_row 1 None None 2 4 400 44 zero_Time,
      aggregated_row 2 (Some 1) (Some 100) 1 3 300 33 zero_Time]"
  unfolding same_key_first_run
  by (simp add: AggregateDaily_writes same_key_writes)
     (simp add: CreateOrUpdate_def Save_def matches_key_def aggregated_row_def)

text \<open>
  The scenario with two assignments of one key meets the conditions of
  \<open>AggregateDaily_second_run\<close>: served the reviews in the other order, the second run
  leaves the two ids and the two keys.
\<close>

lemma same_key_second_run_keeps_keys:
  "wf_metrics (review_metrics same_key_db)
   \<and> team_order (day_reviews 1736899200000000000 same_key_db) [''frontend'']
   \<and> same_rows same_key_db [second_review, scenario_review]
         [scenario_assignment1, second_assignment]
   \<and> map rm_ID (review_metrics (AggregateDaily [''frontend''] scenario_clock 1736899200000000000
          (served [second_review, scenario_review] [scenario_assignment1, second_assignment]
             (AggregateDaily [''frontend''] scenario_clock 1736899200000000000 same_key_db))))
       = map rm_ID (review_metrics
           (AggregateDaily [''frontend''] scenario_clock 1736899200000000000 same_key_db))
   \<and> map metric_key (review_metrics (AggregateDaily [''frontend''] scenario_clock
          1736899200000000000
          (served [second_review, scenario_review] [scenario_assignment1, second_assignment]
             (AggregateDaily [''frontend''] scenario_clock 1736899200000000000 same_key_db))))
       = map metric_key (review_metrics
           (AggregateDaily [''frontend''] scenario_clock 1736899200000000000 same_key_db))"
proof -
  have wf: "wf_metrics (review_metrics same_key_db)"
    by (simp add: wf_metrics_def same_key_db_def scenario_db_def)
  have o1: "team_order (day_reviews 1736899200000000000 same_key_db) [''frontend'']"
    by (simp add: team_order_def day_reviews_def GetCompletedReviewsByDateRange_def
        same_key_db_def scenario_defs second_review_def startOfDay_def Hour_def Minute_def
        Second_def between_opt_def between_def MRStatusMerged_def MRStatusClosed_def)
  have same: "same_rows same_key_db [second_review, scenario_review]
                [scenario_assignment1, second_assignment]"
    by (simp add: same_rows_def same_key_db_def)
  have o2: "team_order (day_reviews 1736899200000000000
              (served [second_review, scenario_review] [scenario_assignment1, second_assignment]
                 same_key_db)) [''frontend'']"
    by (simp add: team_order_def day_reviews_def GetCompletedReviewsByDateRange_def served_def
        same_key_db_def scenario_defs second_review_def startOfDay_def Hour_def Minute_def
        Second_def between_opt_def between_def MRStatusMerged_def MRStatusClosed_def)
  from wf o1 same AggregateDaily_second_run(1,2) [OF wf o1 same o2]
  show ?thesis by blast
qed

text \<open>
  C2.  A second run of \<open>AggregateDaily\<close> for the same date does not leave the metrics
  rows as the first run left them.

  In the scenario of the specification the first run inserts three rows, and the
  \<open>created_at\<close> of each is the instant of its insert.  The second run finds each row and
  saves the recomputed metric over it, whose \<open>CreatedAt\<close> is the zero time: every row
  has changed, in its \<open>created_at\<close>.

  In the scenario with two assignments of one key the first run, which is served the
  reviews in the order 1, 2, leaves the user row with the values of review 2 (3
  comments).  A second run that is served them in the order 2, 1 leaves the row with the
  values of review 1 (5 comments); served in the order of the first run, it leaves the
  values of review 2.
\<close>

theorem second_run_rewrites_rows:
  "review_metrics (AggregateDaily [''frontend''] scenario_clock 1736899200000000000 scenario_db)
     = [aggregated_row 1 None None 1 8 800 88 (scenario_clock 1),
        aggregated_row 2 (Some 1) (Some 100) 1 5 500 55 (scenario_clock 2),
        aggregated_row 3 (Some 2) (Some 100) 1 3 300 33 (scenario_clock 3)]
   \<and> review_metrics (AggregateDaily [''frontend''] scenario_clock 1736899200000000000
        (AggregateDaily [''frontend''] scenario_clock 1736899200000000000 scenario_db))
     = [aggregated_row 1 None None 1 8 800 88 zero_Time,
        aggregated_row 2 (Some 1) (Some 100) 1 5 500 55 zero_Time,
        aggregated_row 3 (Some 2) (Some 100) 1 3 300 33 zero_Time]
   \<and> (\<forall>n. zero_Time < scenario_clock n)
   \<and> review_metrics (AggregateDaily [''frontend''] scenario_clock 1736899200000000000 same_key_db)
     = [aggregated_row 1 None None 2 4 400 44 (scenario_clock 1),
        aggregated_row 2 (Some 1) (Some 100) 1 3 300 33 zero_Time]
   \<and> review_metrics (AggregateDaily [''frontend''] scenario_clock 1736899200000000000
        (served [second_review, scenario_review] [scenario_assignment1, second_assignment]
           (AggregateDaily [''frontend''] scenario_clock 1736899200000000000 same_key_db)))
     = [aggregated_row 1 None None 2 4 400 44 zero_Time,
        aggregated_row 2 (Some 1) (Some 100) 1 5 500 55 zero_Time]
   \<and> review_metrics (AggregateDaily [''frontend''] scenario_clock 1736899200000000000
        (AggregateDaily [''frontend''] scenario_clock 1736899200000000000 same_key_db))
     = [aggregated_row 1 None None 2 4 400 44 zero_Time,
        aggregated_row 2 (Some 1) (Some 100) 1 3 300 33 zero_Time]"
proof -
  have "zero_Time < scenario_clock n" for n
    by (simp add: zero_Time_def scenario_clock_def Second_def)
  then show ?thesis
    using scenario_second_run same_key_second_run same_key_second_run_same_order
    by (simp add: scenario_first_run same_key_first_run)
qed

end
